theory Spec2Isabelle
  imports Complex_Main "HOL-Library.Sublist"
begin

section \<open>The DCGAN model builder of notebooks/week4/model.py\<close>

text \<open>
  The source builds a TensorFlow graph: it declares placeholders, calls layer
  functions that create or bind variables under a variable scope, and combines the
  resulting tensors into two losses. Nothing is computed while the graph is built.
  The embedding follows that: a tensor is a symbolic \<open>node\<close> together with its static
  shape, the default graph's trainable variables are an explicit list of names that
  is threaded through every layer call, and every exception of graph construction is
  a value of type \<open>error\<close>. A separate function \<open>eval\<close> gives the nodes their
  values over the reals.

  Hyperparameters are Python integers (\<open>int\<close>); \<open>/\<close> on them is Python 2 integer
  division, which rounds towards minus infinity, as \<open>div\<close> on \<open>int\<close> does.
\<close>

subsection \<open>Tensors, shapes and errors\<close>

text \<open>A dimension is \<open>None\<close> when it is unknown while the graph is built.\<close>

type_synonym shape = "int option list"

datatype node =
    Placeholder string shape
  | Linear string int node
  | Conv2d string int node
  | Deconv2d string "int list" node
  | BatchNorm string "bool option" node
  | Relu node
  | LRelu node
  | Tanh node
  | Reshape node "int list"
  | OnesLike node
  | ZerosLike node
  | SigmoidCrossEntropy node node
  | ReduceMean node
  | Add node node

record tensor =
  node :: node
  shape :: shape

datatype error =
    NegativeDimension
  | ShapeMismatch
  | VariableExists string
  | VariableNotFound string

text \<open>
  The names of the trainable variables of the default graph, in the order of their
  creation: what \<open>tf.trainable_variables()\<close> returns.
\<close>

type_synonym vstore = "string list"

type_synonym 'a graph_op = "vstore \<Rightarrow> error + ('a \<times> vstore)"

definition gbind :: "'a graph_op \<Rightarrow> ('a \<Rightarrow> 'b graph_op) \<Rightarrow> 'b graph_op" where
  "gbind f g st = (case f st of Inl e \<Rightarrow> Inl e | Inr (x, st') \<Rightarrow> g x st')"

definition lift :: "error + 'a \<Rightarrow> 'a graph_op" where
  "lift r st = (case r of Inl e \<Rightarrow> Inl e | Inr x \<Rightarrow> Inr (x, st))"

subsection \<open>TensorFlow primitives used by the source\<close>

fun valid_dim :: "int option \<Rightarrow> bool" where
  "valid_dim None = True"
| "valid_dim (Some k) = (0 \<le> k)"

text \<open>\<open>tf.placeholder(tf.float32, shape, name)\<close>: a negative dimension is refused.\<close>

definition placeholder :: "shape \<Rightarrow> string \<Rightarrow> error + tensor" where
  "placeholder sh name =
     (if list_all valid_dim sh then Inr \<lparr>node = Placeholder name sh, shape = sh\<rparr>
      else Inl NegativeDimension)"

text \<open>The number of elements of a shape, when every dimension is known.\<close>

fun num_elements :: "shape \<Rightarrow> int option" where
  "num_elements [] = Some 1"
| "num_elements (None # ds) = None"
| "num_elements (Some k # ds) = map_option (\<lambda>n. k * n) (num_elements ds)"

text \<open>
  \<open>tf.reshape(x, dims)\<close>: at most one entry of \<open>dims\<close> is \<open>-1\<close>, and it stands for
  the dimension that makes the element counts agree. When the input's element count
  is unknown, that dimension stays unknown.
\<close>

definition reshape :: "tensor \<Rightarrow> int list \<Rightarrow> error + tensor" where
  "reshape x dims =
     (if 1 < length (filter (\<lambda>d. d = -1) dims) \<or> \<not> list_all (\<lambda>d. -1 \<le> d) dims
      then Inl ShapeMismatch
      else
        let known = prod_list (filter (\<lambda>d. d \<noteq> -1) dims) in
        case num_elements (shape x) of
          None \<Rightarrow>
            Inr \<lparr>node = Reshape (node x) dims,
                 shape = map (\<lambda>d. if d = -1 then None else Some d) dims\<rparr>
        | Some cnt \<Rightarrow>
            if -1 \<in> set dims then
              (if known = 0 \<or> cnt mod known \<noteq> 0 then Inl ShapeMismatch
               else Inr \<lparr>node = Reshape (node x) dims,
                         shape = map (\<lambda>d. Some (if d = -1 then cnt div known else d)) dims\<rparr>)
            else if cnt = known
              then Inr \<lparr>node = Reshape (node x) dims, shape = map Some dims\<rparr>
              else Inl ShapeMismatch)"

text \<open>\<open>tf.nn.tanh\<close>, \<open>tf.ones_like\<close>, \<open>tf.zeros_like\<close> keep the shape.\<close>

definition tanh_op :: "tensor \<Rightarrow> tensor" where
  "tanh_op x = \<lparr>node = Tanh (node x), shape = shape x\<rparr>"

definition ones_like :: "tensor \<Rightarrow> tensor" where
  "ones_like x = \<lparr>node = OnesLike (node x), shape = shape x\<rparr>"

definition zeros_like :: "tensor \<Rightarrow> tensor" where
  "zeros_like x = \<lparr>node = ZerosLike (node x), shape = shape x\<rparr>"

text \<open>
  \<open>tf.nn.sigmoid_cross_entropy_with_logits(logits, targets)\<close>, elementwise, with the
  shape of the logits; \<open>tf.reduce_mean\<close> over all elements gives a scalar; \<open>+\<close> on two
  scalars gives a scalar.
\<close>

definition sigmoid_cross_entropy_with_logits :: "tensor \<Rightarrow> tensor \<Rightarrow> tensor" where
  "sigmoid_cross_entropy_with_logits logits targets =
     \<lparr>node = SigmoidCrossEntropy (node logits) (node targets), shape = shape logits\<rparr>"

definition reduce_mean :: "tensor \<Rightarrow> tensor" where
  "reduce_mean x = \<lparr>node = ReduceMean (node x), shape = []\<rparr>"

definition add_op :: "tensor \<Rightarrow> tensor \<Rightarrow> tensor" where
  "add_op x y = \<lparr>node = Add (node x) (node y), shape = shape x\<rparr>"

text \<open>
  A variable scope is its name and its reuse flag. \<open>tf.get_variable\<close> under a scope
  without reuse creates the variable and fails when the name is taken; with reuse it
  binds the existing variable and fails when there is none.
\<close>

type_synonym scope = "string \<times> bool"

definition get_variable :: "scope \<Rightarrow> string \<Rightarrow> vstore \<Rightarrow> error + vstore" where
  "get_variable sc rel st =
     (let full = fst sc @ ''/'' @ rel in
      if snd sc
      then (if full \<in> set st then Inr st else Inl (VariableNotFound full))
      else (if full \<in> set st then Inl (VariableExists full) else Inr (st @ [full])))"

fun get_variables :: "scope \<Rightarrow> string list \<Rightarrow> vstore \<Rightarrow> error + vstore" where
  "get_variables sc [] st = Inr st"
| "get_variables sc (v # vs) st =
     (case get_variable sc v st of Inl e \<Rightarrow> Inl e | Inr st' \<Rightarrow> get_variables sc vs st')"

definition with_variables :: "scope \<Rightarrow> string list \<Rightarrow> 'a \<Rightarrow> 'a graph_op" where
  "with_variables sc vs x st =
     (case get_variables sc vs st of Inl e \<Rightarrow> Inl e | Inr st' \<Rightarrow> Inr (x, st'))"

subsection \<open>The layer functions of ops.py\<close>

text \<open>
  The source imports its layers with \<open>from ops import *\<close>; ops.py is not among the
  sources. Which variables a layer creates is left open: \<open>vn name\<close> is the list of
  the names, relative to the enclosing variable scope, of the trainable variables
  that the layer called with \<open>name\<close> creates or binds. What a layer returns is
  modelled from the spec, as said at each definition.
\<close>

type_synonym var_names = "string \<Rightarrow> string list"

text \<open>
  Modelled from the spec: \<open>ops.linear(x, dim_out, name)\<close> is missing. The spec calls
  it an affine projection of one vector per sample: to a flat vector of the given
  length (4.1, step 2), and "to a scalar", one score per sample of shape (batch,),
  when the length is 1 (4.2, contract and step 2; the source's comment on line 150
  says the same).
\<close>

definition linear :: "var_names \<Rightarrow> scope \<Rightarrow> tensor \<Rightarrow> int \<Rightarrow> string \<Rightarrow> tensor graph_op" where
  "linear vn sc x dim_out name =
     (case shape x of
        [b, n] \<Rightarrow>
          with_variables sc (vn name)
            \<lparr>node = Linear name dim_out (node x),
             shape = (if dim_out = 1 then [b] else [b, Some dim_out])\<rparr>
      | _ \<Rightarrow> lift (Inl ShapeMismatch))"

text \<open>
  Modelled from the spec: \<open>ops.conv2d(x, channels, name)\<close> is missing. The spec calls
  it a downsampling stage that halves the spatial resolution and yields the given
  channel depth (4.2, step 1). The spec does not say which way an odd size rounds;
  it is rounded up here.
\<close>

definition halve :: "int option \<Rightarrow> int option" where
  "halve d = map_option (\<lambda>k. (k + 1) div 2) d"

definition conv2d :: "var_names \<Rightarrow> scope \<Rightarrow> tensor \<Rightarrow> int \<Rightarrow> string \<Rightarrow> tensor graph_op" where
  "conv2d vn sc x channels name =
     (case shape x of
        [b, h, w, c] \<Rightarrow>
          with_variables sc (vn name)
            \<lparr>node = Conv2d name channels (node x),
             shape = [b, halve h, halve w, Some channels]\<rparr>
      | _ \<Rightarrow> lift (Inl ShapeMismatch))"

text \<open>
  Modelled from the spec: \<open>ops.deconv2d(x, output_shape, name)\<close> is missing. The spec
  calls it an upsampling stage that doubles the spatial resolution (4.1, step 3); the
  result has the declared output shape (the source's comments on lines 115 to 124),
  and a mismatch between the input and the declared batch or spatial dimensions is
  an error raised by the layer while the graph is built (4.3, error conditions; 7).
\<close>

definition compatible :: "int option \<Rightarrow> int \<Rightarrow> bool" where
  "compatible d k = (case d of None \<Rightarrow> True | Some j \<Rightarrow> j = k)"

definition deconv2d :: "var_names \<Rightarrow> scope \<Rightarrow> tensor \<Rightarrow> int list \<Rightarrow> string \<Rightarrow> tensor graph_op" where
  "deconv2d vn sc x output_shape name =
     (case (shape x, output_shape) of
        ([b, h, w, c], [b', h', w', c']) \<Rightarrow>
          if compatible b b' \<and> compatible (map_option (\<lambda>k. 2 * k) h) h'
               \<and> compatible (map_option (\<lambda>k. 2 * k) w) w'
          then with_variables sc (vn name)
                 \<lparr>node = Deconv2d name output_shape (node x), shape = map Some output_shape\<rparr>
          else lift (Inl ShapeMismatch)
      | _ \<Rightarrow> lift (Inl ShapeMismatch))"

text \<open>
  Modelled from the spec: the class \<open>ops.batch_norm\<close> is missing. Constructing the
  object allocates nothing: parameters are created at the first invocation of a layer
  under its scope (3, lifecycle). Calling it keeps the shape. The argument \<open>train\<close> is
  \<open>Some t\<close> when the caller passes \<open>train=t\<close> and \<open>None\<close> when the caller passes
  nothing and the default of ops.py applies.
\<close>

datatype batch_norm = batch_norm (bn_name: string)

definition batch_norm_call ::
  "var_names \<Rightarrow> scope \<Rightarrow> batch_norm \<Rightarrow> tensor \<Rightarrow> bool option \<Rightarrow> tensor graph_op" where
  "batch_norm_call vn sc bn x train =
     with_variables sc (vn (bn_name bn))
       \<lparr>node = BatchNorm (bn_name bn) train (node x), shape = shape x\<rparr>"

text \<open>
  Modelled from the spec: \<open>ops.relu\<close> and \<open>ops.lrelu\<close> are missing; they are
  elementwise activations and keep the shape.
\<close>

definition relu :: "tensor \<Rightarrow> tensor" where
  "relu x = \<lparr>node = Relu (node x), shape = shape x\<rparr>"

definition lrelu :: "tensor \<Rightarrow> tensor" where
  "lrelu x = \<lparr>node = LRelu (node x), shape = shape x\<rparr>"

subsection \<open>The class DCGAN\<close>

record DCGAN =
  batch_size :: int
  learning_rate :: real
  image_size :: int
  output_size :: int
  dim_color :: int
  dim_z :: int
  dim_df :: int
  dim_gf :: int
  images :: tensor
  z :: tensor
  d_bn1 :: batch_norm
  d_bn2 :: batch_norm
  d_bn3 :: batch_norm
  g_bn1 :: batch_norm
  g_bn2 :: batch_norm
  g_bn3 :: batch_norm
  g_bn4 :: batch_norm

text \<open>\<open>__init__\<close> (lines 10 to 44).\<close>

definition DCGAN_init ::
  "int \<Rightarrow> real \<Rightarrow> int \<Rightarrow> int \<Rightarrow> int \<Rightarrow> int \<Rightarrow> int \<Rightarrow> int \<Rightarrow> error + DCGAN" where
  "DCGAN_init bs lr isz osz dc dz df gf =
     (case placeholder [Some bs, Some isz, Some isz, Some dc] ''images'' of
        Inl e \<Rightarrow> Inl e
      | Inr im \<Rightarrow>
          (case placeholder [None, Some dz] ''input_for_generator'' of
             Inl e \<Rightarrow> Inl e
           | Inr zp \<Rightarrow>
               Inr \<lparr>batch_size = bs, learning_rate = lr, image_size = isz, output_size = osz,
                    dim_color = dc, dim_z = dz, dim_df = df, dim_gf = gf,
                    images = im, z = zp,
                    d_bn1 = batch_norm ''d_bn1'', d_bn2 = batch_norm ''d_bn2'',
                    d_bn3 = batch_norm ''d_bn3'',
                    g_bn1 = batch_norm ''g_bn1'', g_bn2 = batch_norm ''g_bn2'',
                    g_bn3 = batch_norm ''g_bn3'', g_bn4 = batch_norm ''g_bn4''\<rparr>))"

text \<open>
  Line 108: \<open>s2, s4, s8, s16 = s/2, s/4, s/8, s/16\<close>, and the length of the
  projection on line 111.
\<close>

definition spatial_sizes :: "int \<Rightarrow> int \<times> int \<times> int \<times> int" where
  "spatial_sizes s = (s div 2, s div 4, s div 8, s div 16)"

definition projection_length :: "DCGAN \<Rightarrow> int" where
  "projection_length self =
     (case spatial_sizes (output_size self) of
        (s2, s4, s8, s16) \<Rightarrow> s16 * s16 * dim_gf self * 8)"

text \<open>\<open>generator\<close> (lines 88 to 126).\<close>

definition generator :: "var_names \<Rightarrow> DCGAN \<Rightarrow> tensor \<Rightarrow> bool \<Rightarrow> tensor graph_op" where
  "generator vn self zin reuse =
     (let train = (if reuse then False else True);
          sc = (''generator'', reuse);
          s = output_size self
      in case spatial_sizes s of (s2, s4, s8, s16) \<Rightarrow>
        gbind (linear vn sc zin (projection_length self) ''g_h1'') (\<lambda>p1.
        gbind (lift (reshape p1 [-1, s16, s16, dim_gf self * 8])) (\<lambda>r1.
        gbind (batch_norm_call vn sc (g_bn1 self) r1 (Some train)) (\<lambda>n1.
        let h1 = relu n1 in
        gbind (deconv2d vn sc h1 [batch_size self, s8, s8, dim_gf self * 4] ''g_h2'') (\<lambda>c2.
        gbind (batch_norm_call vn sc (g_bn2 self) c2 (Some train)) (\<lambda>n2.
        let h2 = relu n2 in
        gbind (deconv2d vn sc h2 [batch_size self, s4, s4, dim_gf self * 2] ''g_h3'') (\<lambda>c3.
        gbind (batch_norm_call vn sc (g_bn3 self) c3 (Some train)) (\<lambda>n3.
        let h3 = relu n3 in
        gbind (deconv2d vn sc h3 [batch_size self, s2, s2, dim_gf self] ''g_h4'') (\<lambda>c4.
        gbind (batch_norm_call vn sc (g_bn4 self) c4 (Some train)) (\<lambda>n4.
        let h4 = relu n4 in
        gbind (deconv2d vn sc h4 [batch_size self, s, s, dim_color self] ''g_out'') (\<lambda>out.
        lift (Inr (tanh_op out)))))))))))))"

text \<open>
  \<open>discriminator\<close> (lines 129 to 152). The batch normalisation layers are called
  with one argument: no \<open>train\<close> is passed.
\<close>

definition discriminator :: "var_names \<Rightarrow> DCGAN \<Rightarrow> tensor \<Rightarrow> bool \<Rightarrow> tensor graph_op" where
  "discriminator vn self imgs reuse =
     (let sc = (''discriminator'', reuse) in
        gbind (conv2d vn sc imgs (dim_df self) ''d_h1'') (\<lambda>c1.
        let h1 = lrelu c1 in
        gbind (conv2d vn sc h1 (dim_df self * 2) ''d_h2'') (\<lambda>c2.
        gbind (batch_norm_call vn sc (d_bn1 self) c2 None) (\<lambda>n2.
        let h2 = lrelu n2 in
        gbind (conv2d vn sc h2 (dim_df self * 4) ''d_h3'') (\<lambda>c3.
        gbind (batch_norm_call vn sc (d_bn2 self) c3 None) (\<lambda>n3.
        let h3 = lrelu n3 in
        gbind (conv2d vn sc h3 (dim_df self * 8) ''d_h4'') (\<lambda>c4.
        gbind (batch_norm_call vn sc (d_bn3 self) c4 None) (\<lambda>n4.
        let h4 = lrelu n4 in
        gbind (lift (reshape h4 [batch_size self, -1])) (\<lambda>flat.
        linear vn sc flat 1 ''d_out'')))))))))"

text \<open>
  \<open>build_model\<close> (lines 47 to 66): the attributes it sets on the object. The
  optimizers, the summaries and the saver (lines 68 to 85) create no trainable
  variable and are left out.
\<close>

record built =
  fake_images :: tensor
  logits_real :: tensor
  logits_fake :: tensor
  sampled_images :: tensor
  d_loss_real :: tensor
  d_loss_fake :: tensor
  d_loss :: tensor
  g_loss :: tensor
  d_vars :: "string list"
  g_vars :: "string list"

definition build_model :: "var_names \<Rightarrow> DCGAN \<Rightarrow> built graph_op" where
  "build_model vn self =
     gbind (generator vn self (z self) False) (\<lambda>fake.
     gbind (discriminator vn self (images self) False) (\<lambda>lreal.
     gbind (discriminator vn self fake True) (\<lambda>lfake.
     gbind (generator vn self (z self) True) (\<lambda>sampled.
     (\<lambda>t_vars.
        let dlr = reduce_mean (sigmoid_cross_entropy_with_logits lreal (ones_like lreal));
            dlf = reduce_mean (sigmoid_cross_entropy_with_logits lfake (zeros_like lfake));
            dl = add_op dlr dlf;
            gl = reduce_mean (sigmoid_cross_entropy_with_logits lfake (ones_like lfake))
        in Inr (\<lparr>fake_images = fake, logits_real = lreal, logits_fake = lfake,
                 sampled_images = sampled,
                 d_loss_real = dlr, d_loss_fake = dlf, d_loss = dl, g_loss = gl,
                 d_vars = filter (\<lambda>var. sublist ''discriminator'' var) t_vars,
                 g_vars = filter (\<lambda>var. sublist ''generator'' var) t_vars\<rparr>, t_vars))))))"

subsection \<open>The values of the nodes\<close>

text \<open>
  A tensor's value is the list of its elements. The layers of ops.py compute with
  weights that the graph does not fix, so their functions are parameters: \<open>layer S
  name train\<close> is what the layer \<open>name\<close> computes (one function per name: two calls
  under one name share their weights), \<open>relu_fn S\<close> and \<open>lrelu_fn S\<close> are the two
  activations. \<open>feed\<close> gives the placeholders their values. The mean of no element
  is not a number: \<open>None\<close>.
\<close>

record semantics =
  layer :: "string \<Rightarrow> bool option \<Rightarrow> real list \<Rightarrow> real list"
  relu_fn :: "real \<Rightarrow> real"
  lrelu_fn :: "real \<Rightarrow> real"

text \<open>
  The formula of \<open>tf.nn.sigmoid_cross_entropy_with_logits\<close> for a logit \<open>x\<close> and a
  target \<open>t\<close>: \<open>max(x, 0) - x * t + log(1 + exp(-abs(x)))\<close>.
\<close>

definition sigmoid_ce :: "real \<Rightarrow> real \<Rightarrow> real" where
  "sigmoid_ce x t = max x 0 - x * t + ln (1 + exp (- \<bar>x\<bar>))"

definition mean :: "real list \<Rightarrow> real option" where
  "mean xs = (if xs = [] then None else Some (sum_list xs / real (length xs)))"

fun eval :: "semantics \<Rightarrow> (string \<Rightarrow> real list) \<Rightarrow> node \<Rightarrow> real list option" where
  "eval S feed (Placeholder name sh) = Some (feed name)"
| "eval S feed (Linear name d x) = map_option (layer S name None) (eval S feed x)"
| "eval S feed (Conv2d name c x) = map_option (layer S name None) (eval S feed x)"
| "eval S feed (Deconv2d name sh x) = map_option (layer S name None) (eval S feed x)"
| "eval S feed (BatchNorm name train x) = map_option (layer S name train) (eval S feed x)"
| "eval S feed (Relu x) = map_option (map (relu_fn S)) (eval S feed x)"
| "eval S feed (LRelu x) = map_option (map (lrelu_fn S)) (eval S feed x)"
| "eval S feed (Tanh x) = map_option (map tanh) (eval S feed x)"
| "eval S feed (Reshape x dims) = eval S feed x"
| "eval S feed (OnesLike x) = map_option (map (\<lambda>_. 1)) (eval S feed x)"
| "eval S feed (ZerosLike x) = map_option (map (\<lambda>_. 0)) (eval S feed x)"
| "eval S feed (SigmoidCrossEntropy x t) =
     (case (eval S feed x, eval S feed t) of
        (Some xs, Some ts) \<Rightarrow> Some (map2 sigmoid_ce xs ts)
      | _ \<Rightarrow> None)"
| "eval S feed (ReduceMean x) =
     (case eval S feed x of None \<Rightarrow> None | Some xs \<Rightarrow> map_option (\<lambda>m. [m]) (mean xs))"
| "eval S feed (Add x y) =
     (case (eval S feed x, eval S feed y) of
        (Some xs, Some ys) \<Rightarrow> Some (map2 (+) xs ys)
      | _ \<Rightarrow> None)"

subsection \<open>Observations on the graph\<close>

text \<open>
  The full name of a variable created under a scope, and the variables of a list of
  layers. The generator and the discriminator call their layers in this order.
\<close>

definition scoped :: "string \<Rightarrow> string list \<Rightarrow> string list" where
  "scoped scope_name vs = map (\<lambda>v. scope_name @ ''/'' @ v) vs"

definition generator_layers :: "DCGAN \<Rightarrow> string list" where
  "generator_layers self =
     [''g_h1'', bn_name (g_bn1 self), ''g_h2'', bn_name (g_bn2 self), ''g_h3'',
      bn_name (g_bn3 self), ''g_h4'', bn_name (g_bn4 self), ''g_out'']"

definition discriminator_layers :: "DCGAN \<Rightarrow> string list" where
  "discriminator_layers self =
     [''d_h1'', ''d_h2'', bn_name (d_bn1 self), ''d_h3'', bn_name (d_bn2 self), ''d_h4'',
      bn_name (d_bn3 self), ''d_out'']"

definition layer_variables :: "var_names \<Rightarrow> string list \<Rightarrow> string list" where
  "layer_variables vn ls = concat (map vn ls)"

text \<open>
  The batch normalisation calls below a node, outermost first, each with the
  \<open>train\<close> argument it was given.
\<close>

fun bn_args :: "node \<Rightarrow> (string \<times> bool option) list" where
  "bn_args (Placeholder name sh) = []"
| "bn_args (Linear name d x) = bn_args x"
| "bn_args (Conv2d name c x) = bn_args x"
| "bn_args (Deconv2d name sh x) = bn_args x"
| "bn_args (BatchNorm name train x) = (name, train) # bn_args x"
| "bn_args (Relu x) = bn_args x"
| "bn_args (LRelu x) = bn_args x"
| "bn_args (Tanh x) = bn_args x"
| "bn_args (Reshape x dims) = bn_args x"
| "bn_args (OnesLike x) = bn_args x"
| "bn_args (ZerosLike x) = bn_args x"
| "bn_args (SigmoidCrossEntropy x t) = bn_args x @ bn_args t"
| "bn_args (ReduceMean x) = bn_args x"
| "bn_args (Add x y) = bn_args x @ bn_args y"

text \<open>
  The shapes that the source writes down below a node, outermost first: the shape
  of a placeholder, the output shape handed to \<open>deconv2d\<close>, the target of a reshape
  (its \<open>-1\<close> is an undetermined dimension). \<open>leading\<close> is the first dimension of a
  shape, if it has one.
\<close>

fun leading :: "shape \<Rightarrow> int option list" where
  "leading [] = []"
| "leading (d # ds) = [d]"

fun declared :: "node \<Rightarrow> shape list" where
  "declared (Placeholder name sh) = [sh]"
| "declared (Linear name d x) = declared x"
| "declared (Conv2d name c x) = declared x"
| "declared (Deconv2d name sh x) = map Some sh # declared x"
| "declared (BatchNorm name train x) = declared x"
| "declared (Relu x) = declared x"
| "declared (LRelu x) = declared x"
| "declared (Tanh x) = declared x"
| "declared (Reshape x dims) = map (\<lambda>d. if d = -1 then None else Some d) dims # declared x"
| "declared (OnesLike x) = declared x"
| "declared (ZerosLike x) = declared x"
| "declared (SigmoidCrossEntropy x t) = declared x @ declared t"
| "declared (ReduceMean x) = declared x"
| "declared (Add x y) = declared x @ declared y"

fun is_activation :: "node \<Rightarrow> bool" where
  "is_activation (Relu x) = True"
| "is_activation (LRelu x) = True"
| "is_activation (Tanh x) = True"
| "is_activation x = False"

subsection \<open>The losses as the spec words them\<close>

text \<open>
  The spec (4.3, step 5) gives the losses as cross-entropy terms of the
  discriminator's scores against an all-real or an all-fake target, the logistic
  squashing of the scores being part of the loss (4.2). \<open>sigmoid\<close> is that squashing
  and \<open>cross_entropy p t\<close> the cross-entropy of a predicted probability \<open>p\<close> against a
  target \<open>t\<close>.
\<close>

definition sigmoid :: "real \<Rightarrow> real" where
  "sigmoid x = 1 / (1 + exp (- x))"

definition cross_entropy :: "real \<Rightarrow> real \<Rightarrow> real" where
  "cross_entropy p t = - (t * ln p + (1 - t) * ln (1 - p))"

subsection \<open>A concrete model\<close>

text \<open>
  The scenario of the spec (8, item 6): batch size 2, latent length 4, 64 by 64
  images with 3 channels, base filter widths 8. In \<open>example_names\<close> every layer has a
  weight and a bias.
\<close>

definition example_names :: var_names where
  "example_names name = [name @ ''/w'', name @ ''/b'']"

definition scenario :: DCGAN where
  "scenario =
     \<lparr>batch_size = 2, learning_rate = 1 / 5000, image_size = 64, output_size = 64,
      dim_color = 3, dim_z = 4, dim_df = 8, dim_gf = 8,
      images = \<lparr>node = Placeholder ''images'' [Some 2, Some 64, Some 64, Some 3],
                shape = [Some 2, Some 64, Some 64, Some 3]\<rparr>,
      z = \<lparr>node = Placeholder ''input_for_generator'' [None, Some 4], shape = [None, Some 4]\<rparr>,
      d_bn1 = batch_norm ''d_bn1'', d_bn2 = batch_norm ''d_bn2'', d_bn3 = batch_norm ''d_bn3'',
      g_bn1 = batch_norm ''g_bn1'', g_bn2 = batch_norm ''g_bn2'', g_bn3 = batch_norm ''g_bn3'',
      g_bn4 = batch_norm ''g_bn4''\<rparr>"

definition example_semantics :: semantics where
  "example_semantics = \<lparr>layer = (\<lambda>name train xs. [1, -1]), relu_fn = (\<lambda>x. x), lrelu_fn = (\<lambda>x. x)\<rparr>"

definition example_feed :: "string \<Rightarrow> real list" where
  "example_feed name = []"

definition generator_store :: vstore where
  "generator_store = scoped ''generator'' (layer_variables example_names (generator_layers scenario))"

definition discriminator_store :: vstore where
  "discriminator_store = scoped ''discriminator'' (layer_variables example_names (discriminator_layers scenario))"

section \<open>Auxiliary lemmas\<close>

subsection \<open>Results of the graph operations\<close>

lemma gbind_Inr_iff:
  "gbind f g st = Inr r \<longleftrightarrow> (\<exists>x st1. f st = Inr (x, st1) \<and> g x st1 = Inr r)"
  by (auto simp: gbind_def split: sum.splits)

lemma lift_Inr_iff: "lift r st = Inr (x, st') \<longleftrightarrow> r = Inr x \<and> st' = st"
  by (auto simp: lift_def split: sum.splits)

lemma with_variables_Inr_iff:
  "with_variables sc vs x st = Inr (y, st') \<longleftrightarrow> y = x \<and> get_variables sc vs st = Inr st'"
  by (auto simp: with_variables_def split: sum.splits)

lemma get_variables_append:
  "get_variables sc (us @ vs) st = Inr st' \<longleftrightarrow>
     (\<exists>st1. get_variables sc us st = Inr st1 \<and> get_variables sc vs st1 = Inr st')"
  by (induction us arbitrary: st) (auto split: sum.splits)

lemma get_variables_reuse:
  "get_variables (nm, True) vs st = Inr st' \<longleftrightarrow> st' = st \<and> set (scoped nm vs) \<subseteq> set st"
  by (induction vs arbitrary: st) (auto simp: get_variable_def scoped_def Let_def split: sum.splits if_splits)

lemma get_variables_create:
  "get_variables (nm, False) vs st = Inr st' \<longleftrightarrow>
     st' = st @ scoped nm vs \<and> distinct (scoped nm vs) \<and> set (scoped nm vs) \<inter> set st = {}"
  by (induction vs arbitrary: st) (auto simp: get_variable_def scoped_def Let_def split: sum.splits if_splits)

lemma linear_Inr_iff:
  "linear vn sc x d name st = Inr (t, st') \<longleftrightarrow>
     (\<exists>b n. shape x = [b, n] \<and>
        t = \<lparr>node = Linear name d (node x), shape = (if d = 1 then [b] else [b, Some d])\<rparr> \<and>
        get_variables sc (vn name) st = Inr st')"
  by (auto simp: linear_def with_variables_Inr_iff lift_Inr_iff split: list.splits)

lemma conv2d_Inr_iff:
  "conv2d vn sc x ch name st = Inr (t, st') \<longleftrightarrow>
     (\<exists>b h w c. shape x = [b, h, w, c] \<and>
        t = \<lparr>node = Conv2d name ch (node x), shape = [b, halve h, halve w, Some ch]\<rparr> \<and>
        get_variables sc (vn name) st = Inr st')"
  by (auto simp: conv2d_def with_variables_Inr_iff lift_Inr_iff split: list.splits)

lemma deconv2d_Inr_iff:
  "deconv2d vn sc x [b', h', w', c'] name st = Inr (t, st') \<longleftrightarrow>
     (\<exists>b h w c. shape x = [b, h, w, c] \<and> compatible b b' \<and>
        compatible (map_option (\<lambda>k. 2 * k) h) h' \<and> compatible (map_option (\<lambda>k. 2 * k) w) w' \<and>
        t = \<lparr>node = Deconv2d name [b', h', w', c'] (node x), shape = [Some b', Some h', Some w', Some c']\<rparr> \<and>
        get_variables sc (vn name) st = Inr st')"
  by (auto simp: deconv2d_def with_variables_Inr_iff lift_Inr_iff split: list.splits)

lemma batch_norm_call_Inr_iff:
  "batch_norm_call vn sc bn x tr st = Inr (t, st') \<longleftrightarrow>
     t = \<lparr>node = BatchNorm (bn_name bn) tr (node x), shape = shape x\<rparr> \<and>
     get_variables sc (vn (bn_name bn)) st = Inr st'"
  by (auto simp: batch_norm_call_def with_variables_Inr_iff)

lemma reshape_node: "reshape x dims = Inr r \<Longrightarrow> node r = Reshape (node x) dims"
  by (auto simp: reshape_def Let_def split: if_splits option.splits)

lemma generator_stages:
  assumes "generator vn self zin reuse st = Inr (t, st')"
  obtains p1 r1 n1 c2 n2 c3 n3 c4 n4 out st1 st2 st3 st4 st5 st6 st7 st8 where
    "linear vn (''generator'', reuse) zin (projection_length self) ''g_h1'' st = Inr (p1, st1)"
    "reshape p1 [-1, output_size self div 16, output_size self div 16, dim_gf self * 8] = Inr r1"
    "batch_norm_call vn (''generator'', reuse) (g_bn1 self) r1 (Some (\<not> reuse)) st1 = Inr (n1, st2)"
    "deconv2d vn (''generator'', reuse) (relu n1)
       [batch_size self, output_size self div 8, output_size self div 8, dim_gf self * 4] ''g_h2'' st2 = Inr (c2, st3)"
    "batch_norm_call vn (''generator'', reuse) (g_bn2 self) c2 (Some (\<not> reuse)) st3 = Inr (n2, st4)"
    "deconv2d vn (''generator'', reuse) (relu n2)
       [batch_size self, output_size self div 4, output_size self div 4, dim_gf self * 2] ''g_h3'' st4 = Inr (c3, st5)"
    "batch_norm_call vn (''generator'', reuse) (g_bn3 self) c3 (Some (\<not> reuse)) st5 = Inr (n3, st6)"
    "deconv2d vn (''generator'', reuse) (relu n3)
       [batch_size self, output_size self div 2, output_size self div 2, dim_gf self] ''g_h4'' st6 = Inr (c4, st7)"
    "batch_norm_call vn (''generator'', reuse) (g_bn4 self) c4 (Some (\<not> reuse)) st7 = Inr (n4, st8)"
    "deconv2d vn (''generator'', reuse) (relu n4)
       [batch_size self, output_size self, output_size self, dim_color self] ''g_out'' st8 = Inr (out, st')"
    "t = tanh_op out"
proof -
  have tr: "(if reuse then False else True) = (\<not> reuse)" by simp
  from assms show ?thesis
    unfolding generator_def Let_def spatial_sizes_def prod.case gbind_Inr_iff lift_Inr_iff tr
    using that by (elim exE conjE) (simp only: sum.inject)
qed

lemma generator_Inr:
  assumes "generator vn self zin reuse st = Inr (t, st')"
  shows "get_variables (''generator'', reuse) (layer_variables vn (generator_layers self)) st = Inr st'"
    and "shape t = [Some (batch_size self), Some (output_size self), Some (output_size self), Some (dim_color self)]"
    and "\<exists>x. node t = Tanh (Deconv2d ''g_out'' [batch_size self, output_size self, output_size self, dim_color self] x)"
    and "bn_args (node t) = 
           [(bn_name (g_bn4 self), Some (\<not> reuse)), (bn_name (g_bn3 self), Some (\<not> reuse)),
            (bn_name (g_bn2 self), Some (\<not> reuse)), (bn_name (g_bn1 self), Some (\<not> reuse))] @ bn_args (node zin)"
proof -
  from assms obtain p1 r1 n1 c2 n2 c3 n3 c4 n4 out st1 st2 st3 st4 st5 st6 st7 st8 where
    s1: "linear vn (''generator'', reuse) zin (projection_length self) ''g_h1'' st = Inr (p1, st1)" and
    s2: "reshape p1 [-1, output_size self div 16, output_size self div 16, dim_gf self * 8] = Inr r1" and
    s3: "batch_norm_call vn (''generator'', reuse) (g_bn1 self) r1 (Some (\<not> reuse)) st1 = Inr (n1, st2)" and
    s4: "deconv2d vn (''generator'', reuse) (relu n1)
       [batch_size self, output_size self div 8, output_size self div 8, dim_gf self * 4] ''g_h2'' st2 = Inr (c2, st3)" and
    s5: "batch_norm_call vn (''generator'', reuse) (g_bn2 self) c2 (Some (\<not> reuse)) st3 = Inr (n2, st4)" and
    s6: "deconv2d vn (''generator'', reuse) (relu n2)
       [batch_size self, output_size self div 4, output_size self div 4, dim_gf self * 2] ''g_h3'' st4 = Inr (c3, st5)" and
    s7: "batch_norm_call vn (''generator'', reuse) (g_bn3 self) c3 (Some (\<not> reuse)) st5 = Inr (n3, st6)" and
    s8: "deconv2d vn (''generator'', reuse) (relu n3)
       [batch_size self, output_size self div 2, output_size self div 2, dim_gf self] ''g_h4'' st6 = Inr (c4, st7)" and
    s9: "batch_norm_call vn (''generator'', reuse) (g_bn4 self) c4 (Some (\<not> reuse)) st7 = Inr (n4, st8)" and
    s10: "deconv2d vn (''generator'', reuse) (relu n4)
       [batch_size self, output_size self, output_size self, dim_color self] ''g_out'' st8 = Inr (out, st')" and
    s11: "t = tanh_op out"
    by (rule generator_stages)
  have v1: "get_variables (''generator'', reuse) (vn ''g_h1'') st = Inr st1"
    using s1 by (auto simp: linear_Inr_iff)
  have v3: "get_variables (''generator'', reuse) (vn (bn_name (g_bn1 self))) st1 = Inr st2"
    using s3 by (auto simp: batch_norm_call_Inr_iff)
  have v4: "get_variables (''generator'', reuse) (vn ''g_h2'') st2 = Inr st3"
    using s4 by (auto simp: deconv2d_Inr_iff)
  have v5: "get_variables (''generator'', reuse) (vn (bn_name (g_bn2 self))) st3 = Inr st4"
    using s5 by (auto simp: batch_norm_call_Inr_iff)
  have v6: "get_variables (''generator'', reuse) (vn ''g_h3'') st4 = Inr st5"
    using s6 by (auto simp: deconv2d_Inr_iff)
  have v7: "get_variables (''generator'', reuse) (vn (bn_name (g_bn3 self))) st5 = Inr st6"
    using s7 by (auto simp: batch_norm_call_Inr_iff)
  have v8: "get_variables (''generator'', reuse) (vn ''g_h4'') st6 = Inr st7"
    using s8 by (auto simp: deconv2d_Inr_iff)
  have v9: "get_variables (''generator'', reuse) (vn (bn_name (g_bn4 self))) st7 = Inr st8"
    using s9 by (auto simp: batch_norm_call_Inr_iff)
  have v10: "get_variables (''generator'', reuse) (vn ''g_out'') st8 = Inr st'"
    using s10 by (auto simp: deconv2d_Inr_iff)
  show "get_variables (''generator'', reuse) (layer_variables vn (generator_layers self)) st = Inr st'"
    unfolding layer_variables_def generator_layers_def
    using v1 v3 v4 v5 v6 v7 v8 v9 v10 by (simp add: get_variables_append)
  show "shape t = [Some (batch_size self), Some (output_size self), Some (output_size self), Some (dim_color self)]"
    using s10 s11 by (auto simp: deconv2d_Inr_iff tanh_op_def)
  show "\<exists>x. node t = Tanh (Deconv2d ''g_out'' [batch_size self, output_size self, output_size self, dim_color self] x)"
    using s10 s11 by (auto simp: deconv2d_Inr_iff tanh_op_def)
  have b1: "bn_args (node n1) = (bn_name (g_bn1 self), Some (\<not> reuse)) # bn_args (node zin)"
    using s1 s3 reshape_node[OF s2] by (auto simp add: linear_Inr_iff batch_norm_call_Inr_iff)
  have b2: "bn_args (node n2) = (bn_name (g_bn2 self), Some (\<not> reuse)) # bn_args (node n1)"
    using s4 s5 by (auto simp add: deconv2d_Inr_iff batch_norm_call_Inr_iff relu_def)
  have b3: "bn_args (node n3) = (bn_name (g_bn3 self), Some (\<not> reuse)) # bn_args (node n2)"
    using s6 s7 by (auto simp add: deconv2d_Inr_iff batch_norm_call_Inr_iff relu_def)
  have b4: "bn_args (node n4) = (bn_name (g_bn4 self), Some (\<not> reuse)) # bn_args (node n3)"
    using s8 s9 by (auto simp add: deconv2d_Inr_iff batch_norm_call_Inr_iff relu_def)
  show "bn_args (node t) = 
           [(bn_name (g_bn4 self), Some (\<not> reuse)), (bn_name (g_bn3 self), Some (\<not> reuse)),
            (bn_name (g_bn2 self), Some (\<not> reuse)), (bn_name (g_bn1 self), Some (\<not> reuse))] @ bn_args (node zin)"
    using s10 s11 b1 b2 b3 b4 by (auto simp add: deconv2d_Inr_iff tanh_op_def relu_def)
qed

lemma projection_length_eq:
  "projection_length self = (output_size self div 16) * (output_size self div 16) * (dim_gf self * 8)"
  by (simp add: projection_length_def spatial_sizes_def mult.assoc)

lemma projection_length_not_1: "projection_length self \<noteq> 1"
proof
  assume "projection_length self = 1"
  then have "(8::int) dvd 1"
    unfolding projection_length_eq by (metis dvd_mult dvd_triv_right)
  then show False by simp
qed

lemma reshape_ok:
  assumes "0 \<le> a" "0 \<le> b" "0 \<le> c" "a * b * c \<noteq> 0" "shape x = [zb, Some (a * b * c)]"
  shows "reshape x [-1, a, b, c] =
           Inr \<lparr>node = Reshape (node x) [-1, a, b, c], shape = [zb, Some a, Some b, Some c]\<rparr>"
proof (cases zb)
  case None
  with assms show ?thesis by (simp add: reshape_def)
next
  case (Some k)
  have "k * (a * b * c) div (a * (b * c)) = k"
    using assms(4) by (simp add: mult.assoc)
  with Some assms show ?thesis by (simp add: reshape_def mult.assoc)
qed

lemma generator_ok:
  assumes d16: "16 dvd output_size self" and pos: "0 < output_size self" "0 < dim_gf self"
    and zsh: "shape zin = [zb, n]" and zb: "zb = None \<or> zb = Some (batch_size self)"
    and vars: "get_variables (''generator'', reuse) (layer_variables vn (generator_layers self)) st = Inr st'"
  shows "\<exists>t. generator vn self zin reuse st = Inr (t, st')"
proof -
  from d16 obtain q where q: "output_size self = 16 * q" by (auto simp: dvd_def)
  with pos have qpos: "0 < q" by simp
  have d: "output_size self div 16 = q" "output_size self div 8 = 2 * q"
    "output_size self div 4 = 4 * q" "output_size self div 2 = 8 * q"
    by (simp_all add: q)
  from vars obtain st1 st2 st3 st4 st5 st6 st7 st8 where
    v1: "get_variables (''generator'', reuse) (vn ''g_h1'') st = Inr st1" and
    v3: "get_variables (''generator'', reuse) (vn (bn_name (g_bn1 self))) st1 = Inr st2" and
    v4: "get_variables (''generator'', reuse) (vn ''g_h2'') st2 = Inr st3" and
    v5: "get_variables (''generator'', reuse) (vn (bn_name (g_bn2 self))) st3 = Inr st4" and
    v6: "get_variables (''generator'', reuse) (vn ''g_h3'') st4 = Inr st5" and
    v7: "get_variables (''generator'', reuse) (vn (bn_name (g_bn3 self))) st5 = Inr st6" and
    v8: "get_variables (''generator'', reuse) (vn ''g_h4'') st6 = Inr st7" and
    v9: "get_variables (''generator'', reuse) (vn (bn_name (g_bn4 self))) st7 = Inr st8" and
    v10: "get_variables (''generator'', reuse) (vn ''g_out'') st8 = Inr st'"
    unfolding layer_variables_def generator_layers_def
    by (auto simp: get_variables_append)
  define p1 where "p1 = \<lparr>node = Linear ''g_h1'' (projection_length self) (node zin),
                         shape = [zb, Some (projection_length self)]\<rparr>"
  have s1: "linear vn (''generator'', reuse) zin (projection_length self) ''g_h1'' st = Inr (p1, st1)"
    using zsh v1 by (simp add: linear_Inr_iff p1_def projection_length_not_1)
  define r1 where "r1 = \<lparr>node = Reshape (node p1) [-1, q, q, dim_gf self * 8],
                         shape = [zb, Some q, Some q, Some (dim_gf self * 8)]\<rparr>"
  have "shape p1 = [zb, Some (q * q * (dim_gf self * 8))]"
    by (simp add: p1_def projection_length_eq d)
  then have s2: "reshape p1 [-1, q, q, dim_gf self * 8] = Inr r1"
    unfolding r1_def using qpos pos by (intro reshape_ok) simp_all
  obtain n1 where s3: "batch_norm_call vn (''generator'', reuse) (g_bn1 self) r1 (Some (\<not> reuse)) st1 = Inr (n1, st2)"
    and h1: "shape (relu n1) = [zb, Some q, Some q, Some (dim_gf self * 8)]"
    using v3 by (simp add: batch_norm_call_Inr_iff relu_def r1_def)
  obtain c2 where s4: "deconv2d vn (''generator'', reuse) (relu n1)
       [batch_size self, 2 * q, 2 * q, dim_gf self * 4] ''g_h2'' st2 = Inr (c2, st3)"
    and c2: "shape c2 = [Some (batch_size self), Some (2 * q), Some (2 * q), Some (dim_gf self * 4)]"
    using v4 h1 zb by (auto simp: deconv2d_Inr_iff compatible_def)
  obtain n2 where s5: "batch_norm_call vn (''generator'', reuse) (g_bn2 self) c2 (Some (\<not> reuse)) st3 = Inr (n2, st4)"
    and h2: "shape (relu n2) = [Some (batch_size self), Some (2 * q), Some (2 * q), Some (dim_gf self * 4)]"
    using v5 c2 by (simp add: batch_norm_call_Inr_iff relu_def)
  obtain c3 where s6: "deconv2d vn (''generator'', reuse) (relu n2)
       [batch_size self, 4 * q, 4 * q, dim_gf self * 2] ''g_h3'' st4 = Inr (c3, st5)"
    and c3: "shape c3 = [Some (batch_size self), Some (4 * q), Some (4 * q), Some (dim_gf self * 2)]"
    using v6 h2 by (auto simp: deconv2d_Inr_iff compatible_def)
  obtain n3 where s7: "batch_norm_call vn (''generator'', reuse) (g_bn3 self) c3 (Some (\<not> reuse)) st5 = Inr (n3, st6)"
    and h3: "shape (relu n3) = [Some (batch_size self), Some (4 * q), Some (4 * q), Some (dim_gf self * 2)]"
    using v7 c3 by (simp add: batch_norm_call_Inr_iff relu_def)
  obtain c4 where s8: "deconv2d vn (''generator'', reuse) (relu n3)
       [batch_size self, 8 * q, 8 * q, dim_gf self] ''g_h4'' st6 = Inr (c4, st7)"
    and c4: "shape c4 = [Some (batch_size self), Some (8 * q), Some (8 * q), Some (dim_gf self)]"
    using v8 h3 by (auto simp: deconv2d_Inr_iff compatible_def)
  obtain n4 where s9: "batch_norm_call vn (''generator'', reuse) (g_bn4 self) c4 (Some (\<not> reuse)) st7 = Inr (n4, st8)"
    and h4: "shape (relu n4) = [Some (batch_size self), Some (8 * q), Some (8 * q), Some (dim_gf self)]"
    using v9 c4 by (simp add: batch_norm_call_Inr_iff relu_def)
  obtain out where s10: "deconv2d vn (''generator'', reuse) (relu n4)
       [batch_size self, 16 * q, 16 * q, dim_color self] ''g_out'' st8 = Inr (out, st')"
    using v10 h4 by (auto simp: deconv2d_Inr_iff compatible_def)
  have tr: "(if reuse then False else True) = (\<not> reuse)" by simp
  have "generator vn self zin reuse st = Inr (tanh_op out, st')"
    unfolding generator_def Let_def spatial_sizes_def prod.case d tr
    by (simp only: gbind_def lift_def q s1 s2 s3 s4 s5 s6 s7 s8 s9 s10 sum.case prod.case mult_numeral_left_semiring_numeral)
  then show ?thesis ..
qed

subsection \<open>The discriminator, stage by stage\<close>

lemma discriminator_stages:
  assumes "discriminator vn self imgs reuse st = Inr (t, st')"
  obtains c1 c2 n2 c3 n3 c4 n4 flat st1 st2 st3 st4 st5 st6 st7 where
    "conv2d vn (''discriminator'', reuse) imgs (dim_df self) ''d_h1'' st = Inr (c1, st1)"
    "conv2d vn (''discriminator'', reuse) (lrelu c1) (dim_df self * 2) ''d_h2'' st1 = Inr (c2, st2)"
    "batch_norm_call vn (''discriminator'', reuse) (d_bn1 self) c2 None st2 = Inr (n2, st3)"
    "conv2d vn (''discriminator'', reuse) (lrelu n2) (dim_df self * 4) ''d_h3'' st3 = Inr (c3, st4)"
    "batch_norm_call vn (''discriminator'', reuse) (d_bn2 self) c3 None st4 = Inr (n3, st5)"
    "conv2d vn (''discriminator'', reuse) (lrelu n3) (dim_df self * 8) ''d_h4'' st5 = Inr (c4, st6)"
    "batch_norm_call vn (''discriminator'', reuse) (d_bn3 self) c4 None st6 = Inr (n4, st7)"
    "reshape (lrelu n4) [batch_size self, -1] = Inr flat"
    "linear vn (''discriminator'', reuse) flat 1 ''d_out'' st7 = Inr (t, st')"
  using assms
  unfolding discriminator_def Let_def gbind_Inr_iff lift_Inr_iff
  by (elim exE conjE) (simp only: sum.inject)

lemma reshape_flat_shape:
  assumes "reshape x [b, -1] = Inr r"
  shows "\<exists>n. shape r = [Some b, n]"
  using assms by (auto simp: reshape_def Let_def split: if_splits option.splits)

lemma num_elements_dvd: "num_elements (Some k # ds) = Some cnt \<Longrightarrow> k dvd cnt"
  by auto

lemma reshape_flat_ok:
  assumes "0 < b" "shape x = Some b # ds"
  shows "\<exists>r. reshape x [b, -1] = Inr r"
proof (cases "num_elements (shape x)")
  case None
  with assms show ?thesis by (simp add: reshape_def)
next
  case (Some cnt)
  with assms have "b dvd cnt" by (auto simp: num_elements_dvd)
  then have "cnt mod b = 0" by simp
  with Some assms(1) show ?thesis by (simp add: reshape_def)
qed

lemma discriminator_Inr:
  assumes "discriminator vn self imgs reuse st = Inr (t, st')"
  shows "get_variables (''discriminator'', reuse) (layer_variables vn (discriminator_layers self)) st = Inr st'"
    and "shape t = [Some (batch_size self)]"
    and "\<exists>x. node t = Linear ''d_out'' 1 x \<and> (\<forall>S feed. (eval S feed x = None) = (eval S feed (node imgs) = None))"
    and "bn_args (node t) =
           [(bn_name (d_bn3 self), None), (bn_name (d_bn2 self), None), (bn_name (d_bn1 self), None)]
           @ bn_args (node imgs)"
proof -
  from assms obtain c1 c2 n2 c3 n3 c4 n4 flat st1 st2 st3 st4 st5 st6 st7 where
    s1: "conv2d vn (''discriminator'', reuse) imgs (dim_df self) ''d_h1'' st = Inr (c1, st1)" and
    s2: "conv2d vn (''discriminator'', reuse) (lrelu c1) (dim_df self * 2) ''d_h2'' st1 = Inr (c2, st2)" and
    s3: "batch_norm_call vn (''discriminator'', reuse) (d_bn1 self) c2 None st2 = Inr (n2, st3)" and
    s4: "conv2d vn (''discriminator'', reuse) (lrelu n2) (dim_df self * 4) ''d_h3'' st3 = Inr (c3, st4)" and
    s5: "batch_norm_call vn (''discriminator'', reuse) (d_bn2 self) c3 None st4 = Inr (n3, st5)" and
    s6: "conv2d vn (''discriminator'', reuse) (lrelu n3) (dim_df self * 8) ''d_h4'' st5 = Inr (c4, st6)" and
    s7: "batch_norm_call vn (''discriminator'', reuse) (d_bn3 self) c4 None st6 = Inr (n4, st7)" and
    s8: "reshape (lrelu n4) [batch_size self, -1] = Inr flat" and
    s9: "linear vn (''discriminator'', reuse) flat 1 ''d_out'' st7 = Inr (t, st')"
    by (rule discriminator_stages)
  have v1: "get_variables (''discriminator'', reuse) (vn ''d_h1'') st = Inr st1"
    using s1 by (auto simp: conv2d_Inr_iff)
  have v2: "get_variables (''discriminator'', reuse) (vn ''d_h2'') st1 = Inr st2"
    using s2 by (auto simp: conv2d_Inr_iff)
  have v3: "get_variables (''discriminator'', reuse) (vn (bn_name (d_bn1 self))) st2 = Inr st3"
    using s3 by (auto simp: batch_norm_call_Inr_iff)
  have v4: "get_variables (''discriminator'', reuse) (vn ''d_h3'') st3 = Inr st4"
    using s4 by (auto simp: conv2d_Inr_iff)
  have v5: "get_variables (''discriminator'', reuse) (vn (bn_name (d_bn2 self))) st4 = Inr st5"
    using s5 by (auto simp: batch_norm_call_Inr_iff)
  have v6: "get_variables (''discriminator'', reuse) (vn ''d_h4'') st5 = Inr st6"
    using s6 by (auto simp: conv2d_Inr_iff)
  have v7: "get_variables (''discriminator'', reuse) (vn (bn_name (d_bn3 self))) st6 = Inr st7"
    using s7 by (auto simp: batch_norm_call_Inr_iff)
  have v9: "get_variables (''discriminator'', reuse) (vn ''d_out'') st7 = Inr st'"
    using s9 by (auto simp: linear_Inr_iff)
  show "get_variables (''discriminator'', reuse) (layer_variables vn (discriminator_layers self)) st = Inr st'"
    unfolding layer_variables_def discriminator_layers_def
    using v1 v2 v3 v4 v5 v6 v7 v9 by (simp add: get_variables_append)
  from reshape_flat_shape[OF s8] obtain n where fl: "shape flat = [Some (batch_size self), n]" ..
  show "shape t = [Some (batch_size self)]"
    using s9 fl by (auto simp: linear_Inr_iff)
  have n1: "node (lrelu c1) = LRelu (Conv2d ''d_h1'' (dim_df self) (node imgs))"
    using s1 by (auto simp: conv2d_Inr_iff lrelu_def)
  have n2: "node (lrelu n2) = LRelu (BatchNorm (bn_name (d_bn1 self)) None
              (Conv2d ''d_h2'' (dim_df self * 2) (node (lrelu c1))))"
    using s2 s3 by (auto simp: conv2d_Inr_iff batch_norm_call_Inr_iff lrelu_def)
  have n3: "node (lrelu n3) = LRelu (BatchNorm (bn_name (d_bn2 self)) None
              (Conv2d ''d_h3'' (dim_df self * 4) (node (lrelu n2))))"
    using s4 s5 by (auto simp: conv2d_Inr_iff batch_norm_call_Inr_iff lrelu_def)
  have n4: "node (lrelu n4) = LRelu (BatchNorm (bn_name (d_bn3 self)) None
              (Conv2d ''d_h4'' (dim_df self * 8) (node (lrelu n3))))"
    using s6 s7 by (auto simp: conv2d_Inr_iff batch_norm_call_Inr_iff lrelu_def)
  have nf: "node flat = Reshape (node (lrelu n4)) [batch_size self, -1]"
    using s8 by (rule reshape_node)
  have nt: "node t = Linear ''d_out'' 1 (node flat)"
    using s9 by (auto simp: linear_Inr_iff)
  have "\<forall>S feed. (eval S feed (node flat) = None) = (eval S feed (node imgs) = None)"
    by (simp add: nf n4 n3 n2 n1)
  with nt show "\<exists>x. node t = Linear ''d_out'' 1 x \<and>
      (\<forall>S feed. (eval S feed x = None) = (eval S feed (node imgs) = None))"
    by blast
  show "bn_args (node t) =
           [(bn_name (d_bn3 self), None), (bn_name (d_bn2 self), None), (bn_name (d_bn1 self), None)]
           @ bn_args (node imgs)"
    by (simp add: nt nf n4 n3 n2 n1)
qed

lemma discriminator_ok:
  assumes bpos: "0 < batch_size self"
    and ish: "shape imgs = [Some (batch_size self), h, w, c]"
    and vars: "get_variables (''discriminator'', reuse) (layer_variables vn (discriminator_layers self)) st = Inr st'"
  shows "\<exists>t. discriminator vn self imgs reuse st = Inr (t, st')"
proof -
  from vars obtain st1 st2 st3 st4 st5 st6 st7 where
    v1: "get_variables (''discriminator'', reuse) (vn ''d_h1'') st = Inr st1" and
    v2: "get_variables (''discriminator'', reuse) (vn ''d_h2'') st1 = Inr st2" and
    v3: "get_variables (''discriminator'', reuse) (vn (bn_name (d_bn1 self))) st2 = Inr st3" and
    v4: "get_variables (''discriminator'', reuse) (vn ''d_h3'') st3 = Inr st4" and
    v5: "get_variables (''discriminator'', reuse) (vn (bn_name (d_bn2 self))) st4 = Inr st5" and
    v6: "get_variables (''discriminator'', reuse) (vn ''d_h4'') st5 = Inr st6" and
    v7: "get_variables (''discriminator'', reuse) (vn (bn_name (d_bn3 self))) st6 = Inr st7" and
    v9: "get_variables (''discriminator'', reuse) (vn ''d_out'') st7 = Inr st'"
    unfolding layer_variables_def discriminator_layers_def
    by (auto simp: get_variables_append)
  obtain c1 h1 w1 k1 where s1: "conv2d vn (''discriminator'', reuse) imgs (dim_df self) ''d_h1'' st = Inr (c1, st1)"
    and c1: "shape (lrelu c1) = [Some (batch_size self), h1, w1, k1]"
    using v1 ish by (simp add: conv2d_Inr_iff lrelu_def)
  obtain c2 h2 w2 k2 where s2: "conv2d vn (''discriminator'', reuse) (lrelu c1) (dim_df self * 2) ''d_h2'' st1 = Inr (c2, st2)"
    and c2: "shape c2 = [Some (batch_size self), h2, w2, k2]"
    using v2 c1 by (simp add: conv2d_Inr_iff)
  obtain n2 where s3: "batch_norm_call vn (''discriminator'', reuse) (d_bn1 self) c2 None st2 = Inr (n2, st3)"
    and n2: "shape (lrelu n2) = [Some (batch_size self), h2, w2, k2]"
    using v3 c2 by (simp add: batch_norm_call_Inr_iff lrelu_def)
  obtain c3 h3 w3 k3 where s4: "conv2d vn (''discriminator'', reuse) (lrelu n2) (dim_df self * 4) ''d_h3'' st3 = Inr (c3, st4)"
    and c3: "shape c3 = [Some (batch_size self), h3, w3, k3]"
    using v4 n2 by (simp add: conv2d_Inr_iff)
  obtain n3 where s5: "batch_norm_call vn (''discriminator'', reuse) (d_bn2 self) c3 None st4 = Inr (n3, st5)"
    and n3: "shape (lrelu n3) = [Some (batch_size self), h3, w3, k3]"
    using v5 c3 by (simp add: batch_norm_call_Inr_iff lrelu_def)
  obtain c4 h4 w4 k4 where s6: "conv2d vn (''discriminator'', reuse) (lrelu n3) (dim_df self * 8) ''d_h4'' st5 = Inr (c4, st6)"
    and c4: "shape c4 = [Some (batch_size self), h4, w4, k4]"
    using v6 n3 by (simp add: conv2d_Inr_iff)
  obtain n4 where s7: "batch_norm_call vn (''discriminator'', reuse) (d_bn3 self) c4 None st6 = Inr (n4, st7)"
    and n4: "shape (lrelu n4) = [Some (batch_size self), h4, w4, k4]"
    using v7 c4 by (simp add: batch_norm_call_Inr_iff lrelu_def)
  obtain flat where s8: "reshape (lrelu n4) [batch_size self, -1] = Inr flat"
    using reshape_flat_ok[OF bpos n4] by blast
  from reshape_flat_shape[OF s8] obtain n where fl: "shape flat = [Some (batch_size self), n]" ..
  obtain t where s9: "linear vn (''discriminator'', reuse) flat 1 ''d_out'' st7 = Inr (t, st')"
    using v9 fl by (simp add: linear_Inr_iff)
  have "discriminator vn self imgs reuse st = Inr (t, st')"
    unfolding discriminator_def Let_def
    by (simp only: gbind_def lift_def s1 s2 s3 s4 s5 s6 s7 s8 s9 sum.case prod.case)
  then show ?thesis ..
qed

subsection \<open>The nodes of the generator and its batch dimension\<close>

lemma generator_node:
  assumes "generator vn self zin reuse st = Inr (t, st')"
  shows "node t =
    Tanh (Deconv2d ''g_out'' [batch_size self, output_size self, output_size self, dim_color self]
      (Relu (BatchNorm (bn_name (g_bn4 self)) (Some (\<not> reuse))
        (Deconv2d ''g_h4'' [batch_size self, output_size self div 2, output_size self div 2, dim_gf self]
          (Relu (BatchNorm (bn_name (g_bn3 self)) (Some (\<not> reuse))
            (Deconv2d ''g_h3'' [batch_size self, output_size self div 4, output_size self div 4, dim_gf self * 2]
              (Relu (BatchNorm (bn_name (g_bn2 self)) (Some (\<not> reuse))
                (Deconv2d ''g_h2'' [batch_size self, output_size self div 8, output_size self div 8, dim_gf self * 4]
                  (Relu (BatchNorm (bn_name (g_bn1 self)) (Some (\<not> reuse))
                    (Reshape (Linear ''g_h1'' (projection_length self) (node zin))
                       [-1, output_size self div 16, output_size self div 16, dim_gf self * 8])))))))))))))"
proof -
  from assms obtain p1 r1 n1 c2 n2 c3 n3 c4 n4 out st1 st2 st3 st4 st5 st6 st7 st8 where
    s1: "linear vn (''generator'', reuse) zin (projection_length self) ''g_h1'' st = Inr (p1, st1)" and
    s2: "reshape p1 [-1, output_size self div 16, output_size self div 16, dim_gf self * 8] = Inr r1" and
    s3: "batch_norm_call vn (''generator'', reuse) (g_bn1 self) r1 (Some (\<not> reuse)) st1 = Inr (n1, st2)" and
    s4: "deconv2d vn (''generator'', reuse) (relu n1)
       [batch_size self, output_size self div 8, output_size self div 8, dim_gf self * 4] ''g_h2'' st2 = Inr (c2, st3)" and
    s5: "batch_norm_call vn (''generator'', reuse) (g_bn2 self) c2 (Some (\<not> reuse)) st3 = Inr (n2, st4)" and
    s6: "deconv2d vn (''generator'', reuse) (relu n2)
       [batch_size self, output_size self div 4, output_size self div 4, dim_gf self * 2] ''g_h3'' st4 = Inr (c3, st5)" and
    s7: "batch_norm_call vn (''generator'', reuse) (g_bn3 self) c3 (Some (\<not> reuse)) st5 = Inr (n3, st6)" and
    s8: "deconv2d vn (''generator'', reuse) (relu n3)
       [batch_size self, output_size self div 2, output_size self div 2, dim_gf self] ''g_h4'' st6 = Inr (c4, st7)" and
    s9: "batch_norm_call vn (''generator'', reuse) (g_bn4 self) c4 (Some (\<not> reuse)) st7 = Inr (n4, st8)" and
    s10: "deconv2d vn (''generator'', reuse) (relu n4)
       [batch_size self, output_size self, output_size self, dim_color self] ''g_out'' st8 = Inr (out, st')" and
    s11: "t = tanh_op out"
    by (rule generator_stages)
  have n1: "node p1 = Linear ''g_h1'' (projection_length self) (node zin)"
    using s1 by (auto simp: linear_Inr_iff)
  have n2: "node r1 = Reshape (node p1) [-1, output_size self div 16, output_size self div 16, dim_gf self * 8]"
    using s2 by (rule reshape_node)
  have n3: "node (relu n1) = Relu (BatchNorm (bn_name (g_bn1 self)) (Some (\<not> reuse)) (node r1))"
    using s3 by (auto simp: batch_norm_call_Inr_iff relu_def)
  have n4: "node c2 = Deconv2d ''g_h2'' [batch_size self, output_size self div 8, output_size self div 8, dim_gf self * 4] (node (relu n1))"
    using s4 by (auto simp: deconv2d_Inr_iff)
  have n5: "node (relu n2) = Relu (BatchNorm (bn_name (g_bn2 self)) (Some (\<not> reuse)) (node c2))"
    using s5 by (auto simp: batch_norm_call_Inr_iff relu_def)
  have n6: "node c3 = Deconv2d ''g_h3'' [batch_size self, output_size self div 4, output_size self div 4, dim_gf self * 2] (node (relu n2))"
    using s6 by (auto simp: deconv2d_Inr_iff)
  have n7: "node (relu n3) = Relu (BatchNorm (bn_name (g_bn3 self)) (Some (\<not> reuse)) (node c3))"
    using s7 by (auto simp: batch_norm_call_Inr_iff relu_def)
  have n8: "node c4 = Deconv2d ''g_h4'' [batch_size self, output_size self div 2, output_size self div 2, dim_gf self] (node (relu n3))"
    using s8 by (auto simp: deconv2d_Inr_iff)
  have n9: "node (relu n4) = Relu (BatchNorm (bn_name (g_bn4 self)) (Some (\<not> reuse)) (node c4))"
    using s9 by (auto simp: batch_norm_call_Inr_iff relu_def)
  have n10: "node out = Deconv2d ''g_out'' [batch_size self, output_size self, output_size self, dim_color self] (node (relu n4))"
    using s10 by (auto simp: deconv2d_Inr_iff)
  show ?thesis
    by (simp only: s11 tanh_op_def tensor.simps n10 n9 n8 n7 n6 n5 n4 n3 n2 n1)
qed

lemma reshape_generator:
  assumes "reshape x [-1, a, b, c] = Inr r" "shape x = [zb, Some n]"
  shows "case zb of None \<Rightarrow> shape r = [None, Some a, Some b, Some c]
          | Some k \<Rightarrow> a * b * c \<noteq> 0 \<and>
               shape r = [Some ((k * n) div (a * b * c)), Some a, Some b, Some c]"
  using assms
  by (cases zb) (auto simp: reshape_def Let_def mult.assoc split: if_splits)

lemma generator_batch:
  assumes "generator vn self zin reuse st = Inr (t, st')"
  shows "\<exists>n. shape zin = [None, n] \<or> shape zin = [Some (batch_size self), n]"
proof -
  from assms obtain p1 r1 n1 c2 st1 st2 st3 where
    s1: "linear vn (''generator'', reuse) zin (projection_length self) ''g_h1'' st = Inr (p1, st1)" and
    s2: "reshape p1 [-1, output_size self div 16, output_size self div 16, dim_gf self * 8] = Inr r1" and
    s3: "batch_norm_call vn (''generator'', reuse) (g_bn1 self) r1 (Some (\<not> reuse)) st1 = Inr (n1, st2)" and
    s4: "deconv2d vn (''generator'', reuse) (relu n1)
       [batch_size self, output_size self div 8, output_size self div 8, dim_gf self * 4] ''g_h2'' st2 = Inr (c2, st3)"
    by (rule generator_stages)
  from s1 obtain zb n where zsh: "shape zin = [zb, n]"
    and p1: "shape p1 = [zb, Some (projection_length self)]"
    by (auto simp: linear_Inr_iff projection_length_not_1)
  have h1: "shape (relu n1) = shape r1"
    using s3 by (auto simp: batch_norm_call_Inr_iff relu_def)
  show ?thesis
  proof (cases zb)
    case None
    with zsh show ?thesis by simp
  next
    case (Some k)
    let ?a = "output_size self div 16" and ?c = "dim_gf self * 8"
    from reshape_generator[OF s2 p1] Some
    have nz: "?a * ?a * ?c \<noteq> 0"
      and r1: "shape r1 = [Some ((k * projection_length self) div (?a * ?a * ?c)), Some ?a, Some ?a, Some ?c]"
      by simp_all
    have "(k * projection_length self) div (?a * ?a * ?c) = k"
      using nz unfolding projection_length_eq by simp
    with r1 h1 have "shape (relu n1) = [Some k, Some ?a, Some ?a, Some ?c]" by simp
    with s4 have "k = batch_size self"
      by (auto simp: deconv2d_Inr_iff compatible_def)
    with zsh Some show ?thesis by simp
  qed
qed

subsection \<open>Variable names and the two partitions\<close>

lemma sublist_across_separator:
  assumes "sublist p (a @ c # b)" "c \<notin> set p"
  shows "sublist p a \<or> sublist p b"
proof -
  from assms(1) have "sublist p a \<or> sublist p (c # b) \<or>
      (\<exists>p1 p2. p = p1 @ p2 \<and> suffix p1 a \<and> prefix p2 (c # b))"
    by (simp add: sublist_append)
  then show ?thesis
  proof (elim disjE exE conjE)
    assume "sublist p a" then show ?thesis ..
  next
    assume "sublist p (c # b)"
    then have "prefix p (c # b) \<or> sublist p b" by (simp add: sublist_Cons_right)
    then show ?thesis
    proof
      assume "prefix p (c # b)"
      with assms(2) have "p = []" by (cases p) auto
      then show ?thesis by simp
    qed simp
  next
    fix p1 p2 assume p: "p = p1 @ p2" and s: "suffix p1 a" and pre: "prefix p2 (c # b)"
    from pre assms(2) p have "p2 = []" by (cases p2) auto
    with p s show ?thesis by auto
  qed
qed

lemma slash_generator: "CHR ''/'' \<notin> set ''generator''" by simp
lemma slash_discriminator: "CHR ''/'' \<notin> set ''discriminator''" by simp

lemma not_disc_in_gen: "\<not> sublist ''discriminator'' ''generator''"
  by (auto dest: sublist_length_le)

lemma not_gen_in_disc: "\<not> sublist ''generator'' ''discriminator''"
  by (auto dest!: set_mono_sublist)

lemma generator_name:
  assumes "\<not> sublist ''discriminator'' v"
  shows "sublist ''generator'' (''generator'' @ ''/'' @ v)"
    and "\<not> sublist ''discriminator'' (''generator'' @ ''/'' @ v)"
proof -
  show "sublist ''generator'' (''generator'' @ ''/'' @ v)" by (rule sublist_append_rightI)
  show "\<not> sublist ''discriminator'' (''generator'' @ ''/'' @ v)"
  proof
    assume "sublist ''discriminator'' (''generator'' @ ''/'' @ v)"
    then have "sublist ''discriminator'' (''generator'' @ CHR ''/'' # v)" by simp
    from sublist_across_separator[OF this slash_discriminator] assms not_disc_in_gen
    show False by blast
  qed
qed

lemma discriminator_name:
  assumes "\<not> sublist ''generator'' v"
  shows "sublist ''discriminator'' (''discriminator'' @ ''/'' @ v)"
    and "\<not> sublist ''generator'' (''discriminator'' @ ''/'' @ v)"
proof -
  show "sublist ''discriminator'' (''discriminator'' @ ''/'' @ v)" by (rule sublist_append_rightI)
  show "\<not> sublist ''generator'' (''discriminator'' @ ''/'' @ v)"
  proof
    assume "sublist ''generator'' (''discriminator'' @ ''/'' @ v)"
    then have "sublist ''generator'' (''discriminator'' @ CHR ''/'' # v)" by simp
    from sublist_across_separator[OF this slash_generator] assms not_gen_in_disc
    show False by blast
  qed
qed

lemma filter_scoped_generator:
  assumes "list_all (\<lambda>v. \<not> sublist ''generator'' v \<and> \<not> sublist ''discriminator'' v) vs"
  shows "filter (\<lambda>var. sublist ''generator'' var) (scoped ''generator'' vs) = scoped ''generator'' vs"
    and "filter (\<lambda>var. sublist ''discriminator'' var) (scoped ''generator'' vs) = []"
    and "filter (\<lambda>var. sublist ''discriminator'' var) (scoped ''discriminator'' vs) = scoped ''discriminator'' vs"
    and "filter (\<lambda>var. sublist ''generator'' var) (scoped ''discriminator'' vs) = []"
  using assms
  by (induction vs) (simp_all add: scoped_def generator_name discriminator_name del: append.simps)

lemma build_model_stages:
  assumes "build_model vn self st = Inr (b, st')"
  obtains st1 st2 where
    "generator vn self (z self) False st = Inr (fake_images b, st1)"
    "discriminator vn self (images self) False st1 = Inr (logits_real b, st2)"
    "discriminator vn self (fake_images b) True st2 = Inr (logits_fake b, st')"
    "generator vn self (z self) True st' = Inr (sampled_images b, st')"
    "d_loss_real b = reduce_mean (sigmoid_cross_entropy_with_logits (logits_real b) (ones_like (logits_real b)))"
    "d_loss_fake b = reduce_mean (sigmoid_cross_entropy_with_logits (logits_fake b) (zeros_like (logits_fake b)))"
    "d_loss b = add_op (d_loss_real b) (d_loss_fake b)"
    "g_loss b = reduce_mean (sigmoid_cross_entropy_with_logits (logits_fake b) (ones_like (logits_fake b)))"
    "d_vars b = filter (\<lambda>var. sublist ''discriminator'' var) st'"
    "g_vars b = filter (\<lambda>var. sublist ''generator'' var) st'"
proof -
  from assms obtain fake st1 lreal st2 lfake st3 sampled st4 where
    g1: "generator vn self (z self) False st = Inr (fake, st1)" and
    d1: "discriminator vn self (images self) False st1 = Inr (lreal, st2)" and
    d2: "discriminator vn self fake True st2 = Inr (lfake, st3)" and
    g2: "generator vn self (z self) True st3 = Inr (sampled, st4)" and
    b: "b = \<lparr>fake_images = fake, logits_real = lreal, logits_fake = lfake,
                 sampled_images = sampled,
                 d_loss_real = reduce_mean (sigmoid_cross_entropy_with_logits lreal (ones_like lreal)),
                 d_loss_fake = reduce_mean (sigmoid_cross_entropy_with_logits lfake (zeros_like lfake)),
                 d_loss = add_op (reduce_mean (sigmoid_cross_entropy_with_logits lreal (ones_like lreal)))
                            (reduce_mean (sigmoid_cross_entropy_with_logits lfake (zeros_like lfake))),
                 g_loss = reduce_mean (sigmoid_cross_entropy_with_logits lfake (ones_like lfake)),
                 d_vars = filter (\<lambda>var. sublist ''discriminator'' var) st4,
                 g_vars = filter (\<lambda>var. sublist ''generator'' var) st4\<rparr>" and
    st: "st' = st4"
    unfolding build_model_def gbind_Inr_iff Let_def
    by (elim exE conjE) (simp only: sum.inject prod.inject, blast)
  have "st3 = st2"
    using discriminator_Inr(1)[OF d2] by (simp add: get_variables_reuse)
  moreover have "st4 = st3"
    using generator_Inr(1)[OF g2] by (simp add: get_variables_reuse)
  ultimately show ?thesis
    using that[of st1 st2] g1 d1 d2 g2 b st by simp
qed

subsection \<open>The cross-entropy formula\<close>

lemma sigmoid_ce_one: "sigmoid_ce x 1 = cross_entropy (sigmoid x) 1"
proof -
  have pos: "0 < 1 + exp (- x)" by (simp add: add_pos_pos)
  have rhs: "cross_entropy (sigmoid x) 1 = ln (1 + exp (- x))"
    using pos by (simp add: cross_entropy_def sigmoid_def ln_div)
  show ?thesis
  proof (cases "0 \<le> x")
    case True
    then show ?thesis by (simp add: sigmoid_ce_def rhs)
  next
    case False
    then have neg: "x < 0" by simp
    have "1 + exp (- x) = exp (- x) * (1 + exp x)"
      by (simp add: distrib_left flip: exp_add)
    moreover have "ln (exp (- x) * (1 + exp x)) = ln (exp (- x)) + ln (1 + exp x)"
      by (rule ln_mult_pos) (simp_all add: add_pos_pos)
    ultimately have "ln (1 + exp (- x)) = - x + ln (1 + exp x)"
      by simp
    with neg show ?thesis by (simp add: sigmoid_ce_def rhs)
  qed
qed

lemma sigmoid_ce_zero: "sigmoid_ce x 0 = cross_entropy (sigmoid x) 0"
proof -
  have pos: "0 < 1 + exp (- x)" by (simp add: add_pos_pos)
  have "1 - sigmoid x = exp (- x) / (1 + exp (- x))"
    using pos by (simp add: sigmoid_def field_simps)
  then have rhs: "cross_entropy (sigmoid x) 0 = x + ln (1 + exp (- x))"
    using pos by (simp add: cross_entropy_def ln_div)
  show ?thesis
  proof (cases "0 \<le> x")
    case True
    then show ?thesis by (simp add: sigmoid_ce_def rhs)
  next
    case False
    then have neg: "x < 0" by simp
    have "1 + exp (- x) = exp (- x) * (1 + exp x)"
      by (simp add: distrib_left flip: exp_add)
    moreover have "ln (exp (- x) * (1 + exp x)) = ln (exp (- x)) + ln (1 + exp x)"
      by (rule ln_mult_pos) (simp_all add: add_pos_pos)
    ultimately have "ln (1 + exp (- x)) = - x + ln (1 + exp x)"
      by simp
    with neg show ?thesis by (simp add: sigmoid_ce_def rhs)
  qed
qed

lemma sigmoid_ce_nonneg:
  assumes "t = 0 \<or> t = 1"
  shows "0 \<le> sigmoid_ce x t"
proof -
  have "0 \<le> ln (1 + exp (- \<bar>x\<bar>))" by (simp add: add_pos_pos)
  moreover have "0 \<le> max x 0 - x * t" using assms by auto
  ultimately show ?thesis by (simp add: sigmoid_ce_def)
qed

lemma eval_mean_ce:
  assumes "eval S feed (node l) = Some xs" "xs \<noteq> []"
  shows "eval S feed (node (reduce_mean (sigmoid_cross_entropy_with_logits l (ones_like l))))
           = Some [(\<Sum>x\<leftarrow>xs. sigmoid_ce x 1) / real (length xs)]"
    and "eval S feed (node (reduce_mean (sigmoid_cross_entropy_with_logits l (zeros_like l))))
           = Some [(\<Sum>x\<leftarrow>xs. sigmoid_ce x 0) / real (length xs)]"
proof -
  have "map2 sigmoid_ce xs (map (\<lambda>_. c) xs) = map (\<lambda>x. sigmoid_ce x c) xs" for c
    by (induction xs) simp_all
  with assms show
    "eval S feed (node (reduce_mean (sigmoid_cross_entropy_with_logits l (ones_like l))))
           = Some [(\<Sum>x\<leftarrow>xs. sigmoid_ce x 1) / real (length xs)]"
    "eval S feed (node (reduce_mean (sigmoid_cross_entropy_with_logits l (zeros_like l))))
           = Some [(\<Sum>x\<leftarrow>xs. sigmoid_ce x 0) / real (length xs)]"
    by (simp_all add: reduce_mean_def sigmoid_cross_entropy_with_logits_def ones_like_def
          zeros_like_def mean_def)
qed

lemma mean_nonneg:
  assumes "list_all (\<lambda>x. 0 \<le> f x) xs"
  shows "0 \<le> (\<Sum>x\<leftarrow>xs. f x) / real (length xs)"
proof -
  have "0 \<le> (\<Sum>x\<leftarrow>xs. f x)"
    using assms by (induction xs) simp_all
  then show ?thesis by simp
qed

subsection \<open>The concrete model builds\<close>

lemma scenario_init: "DCGAN_init 2 (1 / 5000) 64 64 3 4 8 8 = Inr scenario"
  by (simp add: DCGAN_init_def placeholder_def scenario_def)

lemma generator_store_eq:
  "generator_store =
    [''generator/g_h1/w'', ''generator/g_h1/b'', ''generator/g_bn1/w'', ''generator/g_bn1/b'',
     ''generator/g_h2/w'', ''generator/g_h2/b'', ''generator/g_bn2/w'', ''generator/g_bn2/b'',
     ''generator/g_h3/w'', ''generator/g_h3/b'', ''generator/g_bn3/w'', ''generator/g_bn3/b'',
     ''generator/g_h4/w'', ''generator/g_h4/b'', ''generator/g_bn4/w'', ''generator/g_bn4/b'',
     ''generator/g_out/w'', ''generator/g_out/b'']"
  by (simp add: generator_store_def scoped_def layer_variables_def generator_layers_def
        example_names_def scenario_def)

lemma discriminator_store_eq:
  "discriminator_store =
    [''discriminator/d_h1/w'', ''discriminator/d_h1/b'', ''discriminator/d_h2/w'',
     ''discriminator/d_h2/b'', ''discriminator/d_bn1/w'', ''discriminator/d_bn1/b'',
     ''discriminator/d_h3/w'', ''discriminator/d_h3/b'', ''discriminator/d_bn2/w'',
     ''discriminator/d_bn2/b'', ''discriminator/d_h4/w'', ''discriminator/d_h4/b'',
     ''discriminator/d_bn3/w'', ''discriminator/d_bn3/b'', ''discriminator/d_out/w'',
     ''discriminator/d_out/b'']"
  by (simp add: discriminator_store_def scoped_def layer_variables_def discriminator_layers_def
        example_names_def scenario_def)

lemma generator_store_distinct: "distinct generator_store"
  unfolding generator_store_eq by simp

lemma discriminator_store_distinct: "distinct discriminator_store"
  unfolding discriminator_store_eq by simp

lemma stores_disjoint: "set discriminator_store \<inter> set generator_store = {}"
  unfolding generator_store_eq discriminator_store_eq by simp

lemma example_generator_create:
  "get_variables (''generator'', False) (layer_variables example_names (generator_layers scenario)) []
     = Inr generator_store"
  using generator_store_distinct
  by (simp add: get_variables_create generator_store_def)

lemma example_discriminator_create:
  "get_variables (''discriminator'', False)
     (layer_variables example_names (discriminator_layers scenario)) generator_store
     = Inr (generator_store @ discriminator_store)"
  using discriminator_store_distinct stores_disjoint
  by (simp add: get_variables_create discriminator_store_def)

lemma example_discriminator_reuse:
  "get_variables (''discriminator'', True)
     (layer_variables example_names (discriminator_layers scenario))
     (generator_store @ discriminator_store)
     = Inr (generator_store @ discriminator_store)"
  by (simp add: get_variables_reuse discriminator_store_def)

lemma example_generator_reuse:
  "get_variables (''generator'', True)
     (layer_variables example_names (generator_layers scenario))
     (generator_store @ discriminator_store)
     = Inr (generator_store @ discriminator_store)"
  by (simp add: get_variables_reuse generator_store_def)

lemma scenario_fields:
  "batch_size scenario = 2" "output_size scenario = 64" "dim_gf scenario = 8"
  "dim_color scenario = 3" "dim_z scenario = 4" "image_size scenario = 64"
  "shape (z scenario) = [None, Some 4]"
  "shape (images scenario) = [Some 2, Some 64, Some 64, Some 3]"
  "node (z scenario) = Placeholder ''input_for_generator'' [None, Some 4]"
  "node (images scenario) = Placeholder ''images'' [Some 2, Some 64, Some 64, Some 3]"
  by (simp_all add: scenario_def)

lemma example_build:
  "\<exists>b. build_model example_names scenario [] = Inr (b, generator_store @ discriminator_store)"
proof -
  obtain fake where
    g1: "generator example_names scenario (z scenario) False [] = Inr (fake, generator_store)"
    using generator_ok[OF _ _ _ _ _ example_generator_create, of "z scenario" None "Some 4"]
    by (auto simp: scenario_fields)
  have fsh: "shape fake = [Some (batch_size scenario), Some 64, Some 64, Some 3]"
    using generator_Inr(2)[OF g1] by (simp add: scenario_fields)
  obtain lreal where
    d1: "discriminator example_names scenario (images scenario) False generator_store
           = Inr (lreal, generator_store @ discriminator_store)"
    using discriminator_ok[OF _ _ example_discriminator_create, of "images scenario" "Some 64" "Some 64" "Some 3"]
    by (auto simp: scenario_fields)
  obtain lfake where
    d2: "discriminator example_names scenario fake True (generator_store @ discriminator_store)
           = Inr (lfake, generator_store @ discriminator_store)"
    using discriminator_ok[OF _ fsh example_discriminator_reuse]
    by (auto simp: scenario_fields)
  obtain sampled where
    g2: "generator example_names scenario (z scenario) True (generator_store @ discriminator_store)
           = Inr (sampled, generator_store @ discriminator_store)"
    using generator_ok[OF _ _ _ _ _ example_generator_reuse, of "z scenario" None "Some 4"]
    by (auto simp: scenario_fields)
  show ?thesis
    unfolding build_model_def Let_def
    by (simp only: gbind_def g1 d1 d2 g2 sum.case prod.case) blast
qed

subsection \<open>Nodes and values\<close>

lemma discriminator_node:
  assumes "discriminator vn self imgs reuse st = Inr (t, st')"
  shows "node t =
    Linear ''d_out'' 1
      (Reshape
        (LRelu (BatchNorm (bn_name (d_bn3 self)) None (Conv2d ''d_h4'' (dim_df self * 8)
          (LRelu (BatchNorm (bn_name (d_bn2 self)) None (Conv2d ''d_h3'' (dim_df self * 4)
            (LRelu (BatchNorm (bn_name (d_bn1 self)) None (Conv2d ''d_h2'' (dim_df self * 2)
              (LRelu (Conv2d ''d_h1'' (dim_df self) (node imgs))))))))))))
        [batch_size self, -1])"
proof -
  from assms obtain c1 c2 n2 c3 n3 c4 n4 flat st1 st2 st3 st4 st5 st6 st7 where
    s1: "conv2d vn (''discriminator'', reuse) imgs (dim_df self) ''d_h1'' st = Inr (c1, st1)" and
    s2: "conv2d vn (''discriminator'', reuse) (lrelu c1) (dim_df self * 2) ''d_h2'' st1 = Inr (c2, st2)" and
    s3: "batch_norm_call vn (''discriminator'', reuse) (d_bn1 self) c2 None st2 = Inr (n2, st3)" and
    s4: "conv2d vn (''discriminator'', reuse) (lrelu n2) (dim_df self * 4) ''d_h3'' st3 = Inr (c3, st4)" and
    s5: "batch_norm_call vn (''discriminator'', reuse) (d_bn2 self) c3 None st4 = Inr (n3, st5)" and
    s6: "conv2d vn (''discriminator'', reuse) (lrelu n3) (dim_df self * 8) ''d_h4'' st5 = Inr (c4, st6)" and
    s7: "batch_norm_call vn (''discriminator'', reuse) (d_bn3 self) c4 None st6 = Inr (n4, st7)" and
    s8: "reshape (lrelu n4) [batch_size self, -1] = Inr flat" and
    s9: "linear vn (''discriminator'', reuse) flat 1 ''d_out'' st7 = Inr (t, st')"
    by (rule discriminator_stages)
  have n1: "node (lrelu c1) = LRelu (Conv2d ''d_h1'' (dim_df self) (node imgs))"
    using s1 by (auto simp: conv2d_Inr_iff lrelu_def)
  have n2: "node (lrelu n2) = LRelu (BatchNorm (bn_name (d_bn1 self)) None
              (Conv2d ''d_h2'' (dim_df self * 2) (node (lrelu c1))))"
    using s2 s3 by (auto simp: conv2d_Inr_iff batch_norm_call_Inr_iff lrelu_def)
  have n3: "node (lrelu n3) = LRelu (BatchNorm (bn_name (d_bn2 self)) None
              (Conv2d ''d_h3'' (dim_df self * 4) (node (lrelu n2))))"
    using s4 s5 by (auto simp: conv2d_Inr_iff batch_norm_call_Inr_iff lrelu_def)
  have n4: "node (lrelu n4) = LRelu (BatchNorm (bn_name (d_bn3 self)) None
              (Conv2d ''d_h4'' (dim_df self * 8) (node (lrelu n3))))"
    using s6 s7 by (auto simp: conv2d_Inr_iff batch_norm_call_Inr_iff lrelu_def)
  have nf: "node flat = Reshape (node (lrelu n4)) [batch_size self, -1]"
    using s8 by (rule reshape_node)
  have nt: "node t = Linear ''d_out'' 1 (node flat)"
    using s9 by (auto simp: linear_Inr_iff)
  show ?thesis by (simp only: nt nf n4 n3 n2 n1)
qed

lemma generator_eval:
  assumes "generator vn self zin reuse st = Inr (t, st')" "eval S feed (node zin) = Some zv"
  shows "\<exists>ws. eval S feed (node t) = Some (map tanh ws)"
  using assms(2) by (simp add: generator_node[OF assms(1)]) blast

lemma discriminator_eval:
  assumes "discriminator vn self imgs reuse st = Inr (t, st')" "eval S feed (node imgs) = Some iv"
  shows "\<exists>x xv. node t = Linear ''d_out'' 1 x \<and> eval S feed x = Some xv \<and>
           eval S feed (node t) = Some (layer S ''d_out'' None xv)"
  using assms(2) by (simp add: discriminator_node[OF assms(1)])

lemma init_fields:
  assumes "DCGAN_init bs lr isz osz dc dz df gf = Inr m"
  shows "batch_size m = bs" "output_size m = osz" "dim_color m = dc" "dim_z m = dz"
    "images m = \<lparr>node = Placeholder ''images'' [Some bs, Some isz, Some isz, Some dc],
                 shape = [Some bs, Some isz, Some isz, Some dc]\<rparr>"
    "z m = \<lparr>node = Placeholder ''input_for_generator'' [None, Some dz], shape = [None, Some dz]\<rparr>"
  using assms
  by (auto simp: DCGAN_init_def placeholder_def split: if_splits)

lemma example_discriminator_bind:
  "\<exists>t. discriminator example_names scenario (images scenario) True discriminator_store
         = Inr (t, discriminator_store)"
proof -
  have r: "get_variables (''discriminator'', True)
     (layer_variables example_names (discriminator_layers scenario)) discriminator_store
       = Inr discriminator_store"
    by (simp add: get_variables_reuse discriminator_store_def)
  show ?thesis
    using discriminator_ok[OF _ _ r, of "images scenario" "Some 64" "Some 64" "Some 3"]
    by (auto simp: scenario_fields)
qed

subsection \<open>Logits of a built model; the example names\<close>

lemma build_model_logits:
  assumes "build_model vn self st = Inr (b, st')"
    and "eval S feed (node (z self)) = Some zv" "eval S feed (node (images self)) = Some iv"
  shows "\<exists>xv yv. eval S feed (node (logits_real b)) = Some (layer S ''d_out'' None xv)
           \<and> eval S feed (node (logits_fake b)) = Some (layer S ''d_out'' None yv)"
proof -
  from assms(1) obtain st1 st2 where
    g1: "generator vn self (z self) False st = Inr (fake_images b, st1)" and
    d1: "discriminator vn self (images self) False st1 = Inr (logits_real b, st2)" and
    d2: "discriminator vn self (fake_images b) True st2 = Inr (logits_fake b, st')"
    by (rule build_model_stages)
  from generator_eval[OF g1 assms(2)] obtain ws where
    "eval S feed (node (fake_images b)) = Some (map tanh ws)" ..
  from discriminator_eval[OF d2 this] discriminator_eval[OF d1 assms(3)]
  show ?thesis by auto
qed

lemma example_names_plain:
  "list_all (\<lambda>v. \<not> sublist ''generator'' v \<and> \<not> sublist ''discriminator'' v)
     (layer_variables example_names (generator_layers scenario @ discriminator_layers scenario))"
  by (simp add: layer_variables_def generator_layers_def discriminator_layers_def example_names_def
        scenario_def sublist_code(3))

subsection \<open>Losses and batch size of a built model\<close>

lemma build_model_losses:
  assumes "build_model vn self st = Inr (b, st')"
    and "eval S feed (node (logits_real b)) = Some xs" "xs \<noteq> []"
    and "eval S feed (node (logits_fake b)) = Some ys" "ys \<noteq> []"
  shows "eval S feed (node (d_loss b)) =
           Some [(\<Sum>x\<leftarrow>xs. sigmoid_ce x 1) / real (length xs)
                 + (\<Sum>y\<leftarrow>ys. sigmoid_ce y 0) / real (length ys)]"
    and "eval S feed (node (g_loss b)) = Some [(\<Sum>y\<leftarrow>ys. sigmoid_ce y 1) / real (length ys)]"
    and "shape (d_loss b) = []" and "shape (g_loss b) = []"
proof -
  from assms(1) obtain st1 st2 where
    "generator vn self (z self) False st = Inr (fake_images b, st1)"
    "discriminator vn self (images self) False st1 = Inr (logits_real b, st2)" and
    dr: "d_loss_real b = reduce_mean (sigmoid_cross_entropy_with_logits (logits_real b) (ones_like (logits_real b)))" and
    df: "d_loss_fake b = reduce_mean (sigmoid_cross_entropy_with_logits (logits_fake b) (zeros_like (logits_fake b)))" and
    dl: "d_loss b = add_op (d_loss_real b) (d_loss_fake b)" and
    gl: "g_loss b = reduce_mean (sigmoid_cross_entropy_with_logits (logits_fake b) (ones_like (logits_fake b)))"
    by (rule build_model_stages)
  have e1: "eval S feed (node (d_loss_real b)) = Some [(\<Sum>x\<leftarrow>xs. sigmoid_ce x 1) / real (length xs)]"
    unfolding dr by (rule eval_mean_ce(1)[OF assms(2,3)])
  have e2: "eval S feed (node (d_loss_fake b)) = Some [(\<Sum>y\<leftarrow>ys. sigmoid_ce y 0) / real (length ys)]"
    unfolding df by (rule eval_mean_ce(2)[OF assms(4,5)])
  show "eval S feed (node (d_loss b)) =
           Some [(\<Sum>x\<leftarrow>xs. sigmoid_ce x 1) / real (length xs)
                 + (\<Sum>y\<leftarrow>ys. sigmoid_ce y 0) / real (length ys)]"
    by (simp add: dl add_op_def e1 e2)
  show "eval S feed (node (g_loss b)) = Some [(\<Sum>y\<leftarrow>ys. sigmoid_ce y 1) / real (length ys)]"
    unfolding gl by (rule eval_mean_ce(1)[OF assms(4,5)])
  show "shape (d_loss b) = []" by (simp add: dl dr add_op_def reduce_mean_def)
  show "shape (g_loss b) = []" by (simp add: gl reduce_mean_def)
qed

lemma example_logits:
  assumes "build_model example_names scenario [] = Inr (b, st')"
  shows "eval example_semantics example_feed (node (logits_real b)) = Some [1, -1]"
    and "eval example_semantics example_feed (node (logits_fake b)) = Some [1, -1]"
proof -
  have "eval example_semantics example_feed (node (z scenario)) = Some []"
    "eval example_semantics example_feed (node (images scenario)) = Some []"
    by (simp_all add: scenario_fields example_feed_def)
  from build_model_logits[OF assms this]
  show "eval example_semantics example_feed (node (logits_real b)) = Some [1, -1]"
    and "eval example_semantics example_feed (node (logits_fake b)) = Some [1, -1]"
    by (auto simp: example_semantics_def)
qed

lemma generator_batch_mismatch:
  assumes "shape zin = [Some k, n]" "k \<noteq> batch_size self"
  shows "\<exists>e. generator vn self zin reuse st = Inl e"
proof (cases "generator vn self zin reuse st")
  case (Inl e)
  then show ?thesis by blast
next
  case (Inr r)
  then obtain t st' where "generator vn self zin reuse st = Inr (t, st')" by (cases r) auto
  from generator_batch[OF this] assms show ?thesis by auto
qed

lemma discriminator_known_batch:
  assumes "discriminator vn self imgs reuse st = Inr (t, st')"
    and "shape imgs = [Some k, Some h, Some w, Some c]"
  shows "batch_size self \<noteq> 0"
proof -
  from assms(1) obtain c1 c2 n2 c3 n3 c4 n4 flat st1 st2 st3 st4 st5 st6 st7 where
    s1: "conv2d vn (''discriminator'', reuse) imgs (dim_df self) ''d_h1'' st = Inr (c1, st1)" and
    s2: "conv2d vn (''discriminator'', reuse) (lrelu c1) (dim_df self * 2) ''d_h2'' st1 = Inr (c2, st2)" and
    s3: "batch_norm_call vn (''discriminator'', reuse) (d_bn1 self) c2 None st2 = Inr (n2, st3)" and
    s4: "conv2d vn (''discriminator'', reuse) (lrelu n2) (dim_df self * 4) ''d_h3'' st3 = Inr (c3, st4)" and
    s5: "batch_norm_call vn (''discriminator'', reuse) (d_bn2 self) c3 None st4 = Inr (n3, st5)" and
    s6: "conv2d vn (''discriminator'', reuse) (lrelu n3) (dim_df self * 8) ''d_h4'' st5 = Inr (c4, st6)" and
    s7: "batch_norm_call vn (''discriminator'', reuse) (d_bn3 self) c4 None st6 = Inr (n4, st7)" and
    s8: "reshape (lrelu n4) [batch_size self, -1] = Inr flat"
    by (rule discriminator_stages)
  from s1 assms(2) obtain h1 w1 k1 where
    "shape (lrelu c1) = [Some k, Some h1, Some w1, Some k1]"
    by (auto simp: conv2d_Inr_iff lrelu_def halve_def)
  with s2 s3 obtain h2 w2 k2 where
    "shape (lrelu n2) = [Some k, Some h2, Some w2, Some k2]"
    by (auto simp: conv2d_Inr_iff batch_norm_call_Inr_iff lrelu_def halve_def)
  with s4 s5 obtain h3 w3 k3 where
    "shape (lrelu n3) = [Some k, Some h3, Some w3, Some k3]"
    by (auto simp: conv2d_Inr_iff batch_norm_call_Inr_iff lrelu_def halve_def)
  with s6 s7 obtain h4 w4 k4 where
    "shape (lrelu n4) = [Some k, Some h4, Some w4, Some k4]"
    by (auto simp: conv2d_Inr_iff batch_norm_call_Inr_iff lrelu_def halve_def)
  with s8 show ?thesis
    by (auto simp: reshape_def Let_def split: if_splits)
qed

lemma built_batch_positive:
  assumes "DCGAN_init bs lr isz osz dc dz df gf = Inr m"
    and "build_model vn m st = Inr (b, st')"
  shows "0 < batch_size m"
proof -
  from assms(2) obtain st1 st2 where
    d1: "discriminator vn m (images m) False st1 = Inr (logits_real b, st2)"
    by (rule build_model_stages)
  note f = init_fields[OF assms(1)]
  have "shape (images m) = [Some bs, Some isz, Some isz, Some dc]" by (simp add: f)
  from discriminator_known_batch[OF d1 this] have "bs \<noteq> 0" by (simp add: f)
  moreover have "0 \<le> bs"
    using assms(1) by (auto simp: DCGAN_init_def placeholder_def split: if_splits)
  ultimately show ?thesis by (simp add: f)
qed

section \<open>The claims\<close>

subsection \<open>The reuse flag\<close>

text \<open>
  C1, as amended. The claim reads: whenever the discriminator is invoked with
  \<open>reuse=True\<close>, it binds the parameters that exist already and its batch
  normalisation layers run in non-training mode, as the generator's do. The first
  half holds: with \<open>reuse\<close> the store is unchanged and every variable of the
  discriminator is already in it, without \<open>reuse\<close> the variables are appended. The
  second half does not hold. The discriminator calls its three batch normalisation
  layers with one argument (lines 144 to 146), so no \<open>train\<close> value reaches them, with
  either value of \<open>reuse\<close>: their mode is the default of ops.py and does not depend
  on the flag.
\<close>

theorem discriminator_reuse_only_binds:
  assumes "discriminator vn self imgs reuse st = Inr (t, st')"
  shows "bn_args (node t) =
           [(bn_name (d_bn3 self), None), (bn_name (d_bn2 self), None), (bn_name (d_bn1 self), None)]
           @ bn_args (node imgs)
       \<and> (if reuse
          then st' = st
             \<and> set (scoped ''discriminator'' (layer_variables vn (discriminator_layers self))) \<subseteq> set st
          else st' = st @ scoped ''discriminator'' (layer_variables vn (discriminator_layers self))
             \<and> set (scoped ''discriminator'' (layer_variables vn (discriminator_layers self))) \<inter> set st = {})"
  using discriminator_Inr(1,4)[OF assms]
  by (cases reuse) (simp_all add: get_variables_reuse get_variables_create)

theorem discriminator_reuse_only_binds_witness:
  "\<exists>t. discriminator example_names scenario (images scenario) True discriminator_store
         = Inr (t, discriminator_store)
      \<and> bn_args (node t) = [(''d_bn3'', None), (''d_bn2'', None), (''d_bn1'', None)]"
proof -
  from example_discriminator_bind obtain t where
    d: "discriminator example_names scenario (images scenario) True discriminator_store
         = Inr (t, discriminator_store)" ..
  from discriminator_reuse_only_binds[OF d] d show ?thesis
    by (auto simp: scenario_def)
qed

text \<open>
  The claim C1 as stated fails on the scenario: called with \<open>reuse=True\<close> on the real
  images, in a graph that holds the discriminator's variables, the discriminator
  passes no \<open>train\<close> argument to any of its three batch normalisation layers, where
  the generator passes \<open>train=False\<close>.
\<close>

theorem discriminator_reuse_counterexample:
  "map_sum id (\<lambda>r. map snd (bn_args (node (fst r))))
     (discriminator example_names scenario (images scenario) True discriminator_store)
   = Inr [None, None, None]"
proof -
  from example_discriminator_bind obtain t where
    d: "discriminator example_names scenario (images scenario) True discriminator_store
         = Inr (t, discriminator_store)" ..
  from discriminator_Inr(4)[OF d] show ?thesis
    by (simp add: d scenario_fields)
qed

text \<open>
  C7. In the generator the one flag decides both things. Without \<open>reuse\<close> the
  variables of its layers are created under the scope \<open>generator\<close> (they are appended
  to the store, and none of them was there) and each of the four batch normalisation
  layers is called with \<open>train=True\<close>; with \<open>reuse\<close> the store is unchanged, every one
  of those variables is already in it, and each batch normalisation layer is called
  with \<open>train=False\<close>.
\<close>

theorem generator_reuse_couples:
  assumes "generator vn self zin reuse st = Inr (t, st')"
  shows "bn_args (node t) =
           [(bn_name (g_bn4 self), Some (\<not> reuse)), (bn_name (g_bn3 self), Some (\<not> reuse)),
            (bn_name (g_bn2 self), Some (\<not> reuse)), (bn_name (g_bn1 self), Some (\<not> reuse))]
           @ bn_args (node zin)
       \<and> (if reuse
          then st' = st
             \<and> set (scoped ''generator'' (layer_variables vn (generator_layers self))) \<subseteq> set st
          else st' = st @ scoped ''generator'' (layer_variables vn (generator_layers self))
             \<and> set (scoped ''generator'' (layer_variables vn (generator_layers self))) \<inter> set st = {})"
  using generator_Inr(1,4)[OF assms]
  by (cases reuse) (simp_all add: get_variables_reuse get_variables_create)

theorem generator_reuse_couples_witness:
  "(\<exists>t. generator example_names scenario (z scenario) False [] = Inr (t, generator_store)
       \<and> map snd (bn_args (node t)) = [Some True, Some True, Some True, Some True])
   \<and> (\<exists>t. generator example_names scenario (z scenario) True generator_store = Inr (t, generator_store)
       \<and> map snd (bn_args (node t)) = [Some False, Some False, Some False, Some False])"
proof -
  have r: "get_variables (''generator'', True)
     (layer_variables example_names (generator_layers scenario)) generator_store = Inr generator_store"
    by (simp add: get_variables_reuse generator_store_def)
  obtain t1 where
    g1: "generator example_names scenario (z scenario) False [] = Inr (t1, generator_store)"
    using generator_ok[OF _ _ _ _ _ example_generator_create, of "z scenario" None "Some 4"]
    by (auto simp: scenario_fields)
  obtain t2 where
    g2: "generator example_names scenario (z scenario) True generator_store = Inr (t2, generator_store)"
    using generator_ok[OF _ _ _ _ _ r, of "z scenario" None "Some 4"]
    by (auto simp: scenario_fields)
  from generator_reuse_couples[OF g1] generator_reuse_couples[OF g2] g1 g2
  show ?thesis by (simp add: scenario_fields)
qed

subsection \<open>The partition of the variables\<close>

text \<open>
  C2. When \<open>build_model\<close> completes in a graph without earlier trainable variables,
  the variables whose name contains \<open>discriminator\<close> and those whose name contains
  \<open>generator\<close> together are all the trainable variables, and no variable is in both
  lists. The names that ops.py gives to the variables of a layer are not in the
  sources; the hypothesis on \<open>vn\<close> says that none of them contains either word. The
  two lists are then exactly the variables created under each scope.
\<close>

theorem variables_partition:
  assumes "build_model vn self [] = Inr (b, t_vars)"
    and "list_all (\<lambda>v. \<not> sublist ''generator'' v \<and> \<not> sublist ''discriminator'' v)
           (layer_variables vn (generator_layers self @ discriminator_layers self))"
  shows "set (d_vars b) \<union> set (g_vars b) = set t_vars
       \<and> set (d_vars b) \<inter> set (g_vars b) = {}
       \<and> g_vars b = scoped ''generator'' (layer_variables vn (generator_layers self))
       \<and> d_vars b = scoped ''discriminator'' (layer_variables vn (discriminator_layers self))"
proof -
  let ?G = "layer_variables vn (generator_layers self)"
  let ?D = "layer_variables vn (discriminator_layers self)"
  from assms(1) obtain st1 st2 where
    g1: "generator vn self (z self) False [] = Inr (fake_images b, st1)" and
    d1': "discriminator vn self (images self) False st1 = Inr (logits_real b, st2)" and
    d2: "discriminator vn self (fake_images b) True st2 = Inr (logits_fake b, t_vars)" and
    dv: "d_vars b = filter (\<lambda>var. sublist ''discriminator'' var) t_vars" and
    gv: "g_vars b = filter (\<lambda>var. sublist ''generator'' var) t_vars"
    by (rule build_model_stages)
  have "t_vars = st2"
    using discriminator_Inr(1)[OF d2] by (simp add: get_variables_reuse)
  with d1' have
    d1: "discriminator vn self (images self) False st1 = Inr (logits_real b, t_vars)" by simp
  have st1: "st1 = scoped ''generator'' ?G"
    using generator_Inr(1)[OF g1] by (simp add: get_variables_create)
  have tv: "t_vars = scoped ''generator'' ?G @ scoped ''discriminator'' ?D"
    and dj: "set (scoped ''discriminator'' ?D) \<inter> set (scoped ''generator'' ?G) = {}"
    using discriminator_Inr(1)[OF d1] by (simp_all add: get_variables_create st1)
  from assms(2) have
    G: "list_all (\<lambda>v. \<not> sublist ''generator'' v \<and> \<not> sublist ''discriminator'' v) ?G" and
    D: "list_all (\<lambda>v. \<not> sublist ''generator'' v \<and> \<not> sublist ''discriminator'' v) ?D"
    by (simp_all add: layer_variables_def)
  have g: "g_vars b = scoped ''generator'' ?G"
    by (simp add: gv tv filter_scoped_generator[OF G] filter_scoped_generator[OF D])
  have d: "d_vars b = scoped ''discriminator'' ?D"
    by (simp add: dv tv filter_scoped_generator[OF G] filter_scoped_generator[OF D])
  from g d tv dj show ?thesis by auto
qed

theorem variables_partition_witness:
  "\<exists>b. build_model example_names scenario [] = Inr (b, generator_store @ discriminator_store)
      \<and> set (d_vars b) \<union> set (g_vars b) = set (generator_store @ discriminator_store)
      \<and> set (d_vars b) \<inter> set (g_vars b) = {}
      \<and> g_vars b = generator_store \<and> d_vars b = discriminator_store"
proof -
  from example_build obtain b where
    b: "build_model example_names scenario [] = Inr (b, generator_store @ discriminator_store)" ..
  from variables_partition[OF b example_names_plain] b show ?thesis
    by (auto simp: generator_store_def discriminator_store_def)
qed

subsection \<open>Shapes and values\<close>

text \<open>
  C3. For hyperparameters with a positive output size divisible by 16 and a positive
  filter width, the generator applied to latent vectors of shape (batch_size, dim_z),
  the batch dimension known or left open as in the placeholder, returns a tensor of
  shape (batch_size, output_size, output_size, dim_color), provided its variables can
  be created or bound; and whatever the layers compute, every value of that tensor
  lies in [-1, 1]. The output shape is the one declared to the last \<open>deconv2d\<close>,
  which is modelled from the spec.
\<close>

theorem generator_output:
  assumes "16 dvd output_size self" "0 < output_size self" "0 < dim_gf self"
    and "shape zin = [zb, Some (dim_z self)]" "zb = None \<or> zb = Some (batch_size self)"
    and "get_variables (''generator'', reuse) (layer_variables vn (generator_layers self)) st = Inr st'"
    and "eval S feed (node zin) = Some zv"
  shows "\<exists>t vs. generator vn self zin reuse st = Inr (t, st')
           \<and> shape t = [Some (batch_size self), Some (output_size self), Some (output_size self),
                         Some (dim_color self)]
           \<and> eval S feed (node t) = Some vs
           \<and> list_all (\<lambda>v. -1 \<le> v \<and> v \<le> 1) vs"
proof -
  from generator_ok[OF assms(1-6)] obtain t where
    g: "generator vn self zin reuse st = Inr (t, st')" ..
  from generator_eval[OF g assms(7)] obtain ws where
    e: "eval S feed (node t) = Some (map tanh ws)" ..
  have "- 1 \<le> tanh w \<and> tanh w \<le> 1" for w :: real
    using tanh_real_gt_neg1[of w] tanh_real_lt_1[of w] by simp
  then have "list_all (\<lambda>v. -1 \<le> v \<and> v \<le> 1) (map tanh ws)"
    by (simp add: list_all_iff)
  with g e generator_Inr(2)[OF g] show ?thesis by blast
qed

theorem generator_output_witness:
  "16 dvd output_size scenario \<and> 0 < output_size scenario \<and> 0 < dim_gf scenario
   \<and> shape (z scenario) = [None, Some (dim_z scenario)]
   \<and> eval example_semantics example_feed (node (z scenario)) = Some []
   \<and> (\<exists>t vs. generator example_names scenario (z scenario) False [] = Inr (t, generator_store)
         \<and> shape t = [Some 2, Some 64, Some 64, Some 3]
         \<and> eval example_semantics example_feed (node t) = Some vs
         \<and> list_all (\<lambda>v. -1 \<le> v \<and> v \<le> 1) vs)"
proof -
  have h: "16 dvd output_size scenario" "0 < output_size scenario" "0 < dim_gf scenario"
    "shape (z scenario) = [None, Some (dim_z scenario)]" "None = None \<or> None = Some (batch_size scenario)"
    by (simp_all add: scenario_fields)
  have e: "eval example_semantics example_feed (node (z scenario)) = Some []"
    by (simp add: scenario_fields example_feed_def)
  from generator_output[OF h example_generator_create e] h e
  show ?thesis by (simp add: scenario_fields)
qed

text \<open>
  C4. For a positive batch size, the discriminator applied to images of shape
  (batch_size, image_size, image_size, dim_color) returns a tensor of shape
  (batch_size,), provided its variables can be created or bound. The tensor is the
  result of the projection \<open>d_out\<close> itself: no activation is applied to it, and its
  value is whatever that layer computes from the flattened features. The shape of a
  projection to length 1 is modelled from the spec.
\<close>

theorem discriminator_output:
  assumes "0 < batch_size self"
    and "shape imgs = [Some (batch_size self), Some (image_size self), Some (image_size self),
                       Some (dim_color self)]"
    and "get_variables (''discriminator'', reuse) (layer_variables vn (discriminator_layers self)) st
           = Inr st'"
    and "eval S feed (node imgs) = Some iv"
  shows "\<exists>t x xv. discriminator vn self imgs reuse st = Inr (t, st')
           \<and> shape t = [Some (batch_size self)]
           \<and> node t = Linear ''d_out'' 1 x \<and> \<not> is_activation (node t)
           \<and> eval S feed x = Some xv
           \<and> eval S feed (node t) = Some (layer S ''d_out'' None xv)"
proof -
  from discriminator_ok[OF assms(1-3)] obtain t where
    d: "discriminator vn self imgs reuse st = Inr (t, st')" ..
  from discriminator_eval[OF d assms(4)] obtain x xv where
    "node t = Linear ''d_out'' 1 x" "eval S feed x = Some xv"
    "eval S feed (node t) = Some (layer S ''d_out'' None xv)" by blast
  with d discriminator_Inr(2)[OF d] show ?thesis by auto
qed

theorem discriminator_output_witness:
  "0 < batch_size scenario
   \<and> shape (images scenario) = [Some (batch_size scenario), Some (image_size scenario),
        Some (image_size scenario), Some (dim_color scenario)]
   \<and> eval example_semantics example_feed (node (images scenario)) = Some []
   \<and> (\<exists>t x. discriminator example_names scenario (images scenario) False generator_store
              = Inr (t, generator_store @ discriminator_store)
         \<and> shape t = [Some 2]
         \<and> node t = Linear ''d_out'' 1 x
         \<and> eval example_semantics example_feed (node t) = Some [1, -1])"
proof -
  have h: "0 < batch_size scenario"
    "shape (images scenario) = [Some (batch_size scenario), Some (image_size scenario),
        Some (image_size scenario), Some (dim_color scenario)]"
    by (simp_all add: scenario_fields)
  have e: "eval example_semantics example_feed (node (images scenario)) = Some []"
    by (simp add: scenario_fields example_feed_def)
  from discriminator_output[OF h example_discriminator_create e] h e
  show ?thesis by (auto simp: scenario_fields example_semantics_def)
qed

subsection \<open>The losses\<close>

text \<open>
  C5. In a built model the discriminator loss is the mean cross-entropy of the
  squashed real logits against the target 1 plus the mean cross-entropy of the
  squashed fake logits against the target 0, and the generator loss is the mean
  cross-entropy of the squashed fake logits against the target 1. The left-hand
  sides evaluate the nodes that \<open>build_model\<close> constructs, with TensorFlow's formula; the
  right-hand sides are the cross-entropies in the spec's words.
\<close>

theorem losses_are_cross_entropies:
  assumes "build_model vn self st = Inr (b, st')"
    and "eval S feed (node (logits_real b)) = Some xs" "xs \<noteq> []"
    and "eval S feed (node (logits_fake b)) = Some ys" "ys \<noteq> []"
  shows "eval S feed (node (d_loss b)) =
           Some [(\<Sum>x\<leftarrow>xs. cross_entropy (sigmoid x) 1) / real (length xs)
                 + (\<Sum>y\<leftarrow>ys. cross_entropy (sigmoid y) 0) / real (length ys)]
       \<and> eval S feed (node (g_loss b)) =
           Some [(\<Sum>y\<leftarrow>ys. cross_entropy (sigmoid y) 1) / real (length ys)]"
  using build_model_losses(1,2)[OF assms]
  by (simp add: sigmoid_ce_one sigmoid_ce_zero)

theorem losses_are_cross_entropies_witness:
  "\<exists>b. build_model example_names scenario [] = Inr (b, generator_store @ discriminator_store)
     \<and> eval example_semantics example_feed (node (logits_real b)) = Some [1, -1]
     \<and> eval example_semantics example_feed (node (logits_fake b)) = Some [1, -1]
     \<and> eval example_semantics example_feed (node (d_loss b)) =
         Some [(cross_entropy (sigmoid 1) 1 + cross_entropy (sigmoid (-1)) 1) / 2
               + (cross_entropy (sigmoid 1) 0 + cross_entropy (sigmoid (-1)) 0) / 2]
     \<and> eval example_semantics example_feed (node (g_loss b)) =
         Some [(cross_entropy (sigmoid 1) 1 + cross_entropy (sigmoid (-1)) 1) / 2]"
proof -
  from example_build obtain b where
    b: "build_model example_names scenario [] = Inr (b, generator_store @ discriminator_store)" ..
  have ne: "[1, - 1 :: real] \<noteq> []" by simp
  from losses_are_cross_entropies[OF b example_logits(1)[OF b] ne example_logits(2)[OF b] ne]
  have "eval example_semantics example_feed (node (d_loss b)) =
         Some [(cross_entropy (sigmoid 1) 1 + cross_entropy (sigmoid (-1)) 1) / 2
               + (cross_entropy (sigmoid 1) 0 + cross_entropy (sigmoid (-1)) 0) / 2]"
    "eval example_semantics example_feed (node (g_loss b)) =
         Some [(cross_entropy (sigmoid 1) 1 + cross_entropy (sigmoid (-1)) 1) / 2]"
    by simp_all
  with b example_logits[OF b] show ?thesis
    by (intro exI[of _ b] conjI)
qed

text \<open>
  C6. For every batch of real-valued logits, both losses of a built model are scalars
  and are not negative. The batch is taken to hold at least one logit: a model that
  \<open>build_model\<close> has built has a positive batch size (\<open>built_batch_positive\<close>), and
  the mean of no element is not a number.
\<close>

theorem losses_nonnegative:
  assumes "build_model vn self st = Inr (b, st')"
    and "eval S feed (node (logits_real b)) = Some xs" "xs \<noteq> []"
    and "eval S feed (node (logits_fake b)) = Some ys" "ys \<noteq> []"
  shows "\<exists>d g. eval S feed (node (d_loss b)) = Some [d] \<and> 0 \<le> d \<and> shape (d_loss b) = []
             \<and> eval S feed (node (g_loss b)) = Some [g] \<and> 0 \<le> g \<and> shape (g_loss b) = []"
proof -
  have 1: "0 \<le> (\<Sum>x\<leftarrow>xs. sigmoid_ce x 1) / real (length xs)"
    by (rule mean_nonneg) (simp add: list_all_iff sigmoid_ce_nonneg)
  have 2: "0 \<le> (\<Sum>y\<leftarrow>ys. sigmoid_ce y 0) / real (length ys)"
    by (rule mean_nonneg) (simp add: list_all_iff sigmoid_ce_nonneg)
  have 3: "0 \<le> (\<Sum>y\<leftarrow>ys. sigmoid_ce y 1) / real (length ys)"
    by (rule mean_nonneg) (simp add: list_all_iff sigmoid_ce_nonneg)
  let ?d = "(\<Sum>x\<leftarrow>xs. sigmoid_ce x 1) / real (length xs)
              + (\<Sum>y\<leftarrow>ys. sigmoid_ce y 0) / real (length ys)"
  let ?g = "(\<Sum>y\<leftarrow>ys. sigmoid_ce y 1) / real (length ys)"
  from 1 2 have 4: "0 \<le> ?d" by simp
  note l = build_model_losses[OF assms]
  show ?thesis
    by (intro exI[of _ ?d] exI[of _ ?g] conjI) (rule l 3 4)+
qed

theorem losses_nonnegative_witness:
  "\<exists>b d g. build_model example_names scenario [] = Inr (b, generator_store @ discriminator_store)
     \<and> eval example_semantics example_feed (node (logits_real b)) = Some [1, -1]
     \<and> eval example_semantics example_feed (node (logits_fake b)) = Some [1, -1]
     \<and> eval example_semantics example_feed (node (d_loss b)) = Some [d] \<and> 0 \<le> d
     \<and> eval example_semantics example_feed (node (g_loss b)) = Some [g] \<and> 0 \<le> g"
proof -
  from example_build obtain b where
    b: "build_model example_names scenario [] = Inr (b, generator_store @ discriminator_store)" ..
  have ne: "[1, - 1 :: real] \<noteq> []" by simp
  from losses_nonnegative[OF b example_logits(1)[OF b] ne example_logits(2)[OF b] ne]
  obtain d g where
    "eval example_semantics example_feed (node (d_loss b)) = Some [d]" "0 \<le> d"
    "eval example_semantics example_feed (node (g_loss b)) = Some [g]" "0 \<le> g"
    by (elim exE conjE)
  with b example_logits[OF b] show ?thesis
    by (intro exI[of _ b] exI[of _ d] exI[of _ g] conjI)
qed

subsection \<open>The batch dimension\<close>

text \<open>
  C8, as amended. The claim reads: the batch size is the leading dimension of every
  placeholder and of every tensor shape declared in the graph, the latent-vector
  input included. What holds: the batch size is the leading dimension of the
  real-image placeholder, of the output shape declared by each of the generator's
  four upsampling stages, of the discriminator's flattening reshape, and of the
  generated images and both logits; the latent-vector placeholder and the generator's
  first reshape are declared with an undetermined leading dimension (\<open>None\<close> on line
  34, \<open>-1\<close> on line 112).
\<close>

theorem batch_size_leading_dimension:
  assumes "DCGAN_init bs lr isz osz dc dz df gf = Inr m"
    and "build_model vn m st = Inr (b, st')"
  shows "leading (shape (images m)) = [Some bs]
       \<and> leading (shape (z m)) = [None]
       \<and> map leading (declared (node (fake_images b))) =
           [[Some bs], [Some bs], [Some bs], [Some bs], [None], [None]]
       \<and> map leading (declared (node (logits_real b))) = [[Some bs], [Some bs]]
       \<and> leading (shape (fake_images b)) = [Some bs]
       \<and> leading (shape (logits_real b)) = [Some bs]
       \<and> leading (shape (logits_fake b)) = [Some bs]"
proof -
  from assms(2) obtain st1 st2 where
    g1: "generator vn m (z m) False st = Inr (fake_images b, st1)" and
    d1: "discriminator vn m (images m) False st1 = Inr (logits_real b, st2)" and
    d2: "discriminator vn m (fake_images b) True st2 = Inr (logits_fake b, st')"
    by (rule build_model_stages)
  have bsne: "bs \<noteq> -1"
    using assms(1) by (auto simp: DCGAN_init_def placeholder_def split: if_splits)
  note f = init_fields[OF assms(1)]
  show ?thesis
    using generator_Inr(2)[OF g1] discriminator_Inr(2)[OF d1] discriminator_Inr(2)[OF d2] bsne
    by (simp add: generator_node[OF g1] discriminator_node[OF d1] f)
qed

theorem batch_size_leading_dimension_witness:
  "DCGAN_init 2 (1 / 5000) 64 64 3 4 8 8 = Inr scenario
   \<and> (\<exists>b. build_model example_names scenario [] = Inr (b, generator_store @ discriminator_store)
        \<and> leading (shape (images scenario)) = [Some 2]
        \<and> leading (shape (z scenario)) = [None]
        \<and> map leading (declared (node (fake_images b))) =
            [[Some 2], [Some 2], [Some 2], [Some 2], [None], [None]]
        \<and> map leading (declared (node (logits_real b))) = [[Some 2], [Some 2]])"
proof -
  from example_build obtain b where
    b: "build_model example_names scenario [] = Inr (b, generator_store @ discriminator_store)" ..
  from batch_size_leading_dimension[OF scenario_init b] scenario_init b
  show ?thesis by (intro conjI exI[of _ b]) simp_all
qed

text \<open>
  The claim C8 as stated fails on the scenario: the model is constructed with batch
  size 2, and the leading dimension of its latent-vector placeholder is not 2 but
  undetermined.
\<close>

theorem latent_placeholder_counterexample:
  "DCGAN_init 2 (1 / 5000) 64 64 3 4 8 8 = Inr scenario
   \<and> batch_size scenario = 2
   \<and> leading (shape (z scenario)) = [None]
   \<and> leading (shape (z scenario)) \<noteq> [Some (batch_size scenario)]"
  using scenario_init by (simp add: scenario_fields)

text \<open>
  C10. The latent-vector placeholder is declared with an undetermined leading
  dimension, yet each of the generator's four upsampling stages declares the
  configured batch size as the leading dimension of its output. So whenever the
  generator returns a tensor, that tensor's batch dimension is the batch size, and
  the number of latent vectors it was given was either undetermined or the batch
  size: given any other number, building the graph fails. That a mismatch is detected
  by \<open>deconv2d\<close> while the graph is built is modelled from the spec.
\<close>

theorem generator_batch_dimension:
  assumes "DCGAN_init bs lr isz osz dc dz df gf = Inr m"
    and "generator vn m zin reuse st = Inr (t, st')"
  shows "shape (z m) = [None, Some dz]
       \<and> map leading (take 4 (declared (node t))) = [[Some bs], [Some bs], [Some bs], [Some bs]]
       \<and> leading (shape t) = [Some bs]
       \<and> (\<exists>n. shape zin = [None, n] \<or> shape zin = [Some bs, n])"
proof -
  note f = init_fields[OF assms(1)]
  from generator_batch[OF assms(2)] generator_Inr(2)[OF assms(2)]
  show ?thesis
    by (simp add: generator_node[OF assms(2)] f)
qed

theorem generator_batch_dimension_witness:
  "DCGAN_init 2 (1 / 5000) 64 64 3 4 8 8 = Inr scenario
   \<and> (\<exists>t. generator example_names scenario (z scenario) False [] = Inr (t, generator_store)
        \<and> shape (z scenario) = [None, Some 4]
        \<and> map leading (take 4 (declared (node t))) = [[Some 2], [Some 2], [Some 2], [Some 2]]
        \<and> leading (shape t) = [Some 2])"
proof -
  obtain t where
    g: "generator example_names scenario (z scenario) False [] = Inr (t, generator_store)"
    using generator_ok[OF _ _ _ _ _ example_generator_create, of "z scenario" None "Some 4"]
    by (auto simp: scenario_fields)
  from generator_batch_dimension[OF scenario_init g] scenario_init g
  show ?thesis by (intro conjI exI[of _ t]) simp_all
qed

subsection \<open>The spatial sizes\<close>

text \<open>
  C9. The generator computes its four spatial sizes from the output size by integer
  division by 2, 4, 8 and 16. When the output size is divisible by 16, each division
  is exact, and the length of the projection is the square of a sixteenth of the
  output size, times 8, times the generator's filter width.
\<close>

theorem halving_sizes_exact:
  assumes "16 dvd output_size self"
  shows "spatial_sizes (output_size self) =
           (output_size self div 2, output_size self div 4, output_size self div 8,
            output_size self div 16)
       \<and> 2 * (output_size self div 2) = output_size self
       \<and> 4 * (output_size self div 4) = output_size self
       \<and> 8 * (output_size self div 8) = output_size self
       \<and> 16 * (output_size self div 16) = output_size self
       \<and> projection_length self = (output_size self div 16)\<^sup>2 * 8 * dim_gf self"
proof -
  from assms obtain q where q: "output_size self = 16 * q" by (auto simp: dvd_def)
  show ?thesis
    by (simp add: spatial_sizes_def projection_length_def q power2_eq_square)
qed

theorem halving_sizes_exact_witness:
  "16 dvd output_size scenario
   \<and> spatial_sizes (output_size scenario) = (32, 16, 8, 4)
   \<and> projection_length scenario = 4\<^sup>2 * 8 * 8"
proof -
  have h: "16 dvd output_size scenario" by (simp add: scenario_fields)
  from halving_sizes_exact[OF h] h show ?thesis by (simp add: scenario_fields)
qed

end
